theory Spec2Isabelle
  imports Complex_Main
begin

section \<open>The document tree\<close>

text \<open>
  The validator of \<^verbatim>\<open>src/tools/validator.py\<close> reads the tree that \<^verbatim>\<open>json.loads\<close> or
  \<^verbatim>\<open>yaml.safe_load\<close> returns: dictionaries, lists, strings, numbers, booleans and
  \<^verbatim>\<open>None\<close>. It never builds typed objects, so the model keeps the tree generic.

  Numbers: every finite Python \<^verbatim>\<open>int\<close> and \<^verbatim>\<open>float\<close> is a rational, and Python compares an
  \<^verbatim>\<open>int\<close> with a \<^verbatim>\<open>float\<close> by exact value, so a number is a rational or one of the two
  infinities (the source itself uses \<^verbatim>\<open>float('inf')\<close>). The model does not tell \<^verbatim>\<open>1\<close> from
  \<^verbatim>\<open>1.0\<close>, and NaN is outside it.

  A dictionary is an association list with string keys, read with \<open>map_of\<close> (the first
  binding of a key counts).
\<close>

datatype pynum = NegInf | Fin rat | PosInf

datatype jv =
    JNull
  | JBool bool
  | JNum pynum
  | JStr string
  | JList "jv list"
  | JDict "(string \<times> jv) list"

text \<open>The exceptions that the operations on the tree can raise.\<close>

datatype pyerr = TypeError | AttributeError | KeyError

text \<open>
  A message is an f-string before rendering: its literal pieces and the values that are
  interpolated into it, in order. Python's rendering of a float is not modelled; that a
  message cites a value means that the value is one of its \<open>Val\<close> pieces.
\<close>

datatype frag = Lit string | Val jv

type_synonym msg = "frag list"

section \<open>Sequencing of fallible steps\<close>

definition bindE :: "pyerr + 'a \<Rightarrow> ('a \<Rightarrow> pyerr + 'b) \<Rightarrow> pyerr + 'b" where
  "bindE m f = (case m of Inl e \<Rightarrow> Inl e | Inr v \<Rightarrow> f v)"

text \<open>A \<^verbatim>\<open>for\<close> loop over a list whose body updates a state and may raise.\<close>

fun forE :: "'a list \<Rightarrow> ('a \<Rightarrow> 's \<Rightarrow> pyerr + 's) \<Rightarrow> 's \<Rightarrow> pyerr + 's" where
  "forE [] body s = Inr s"
| "forE (x # xs) body s = bindE (body x s) (forE xs body)"

section \<open>Python's operations on the tree\<close>

fun has_infix :: "string \<Rightarrow> string \<Rightarrow> bool" where
  "has_infix p [] = (p = [])"
| "has_infix p (c # cs) = (take (length p) (c # cs) = p \<or> has_infix p cs)"

text \<open>\<^verbatim>\<open>k in x\<close> for a string \<open>k\<close>: a key of a dictionary, an element of a list, a
  substring of a string; any other \<open>x\<close> is not iterable.\<close>

fun py_contains :: "string \<Rightarrow> jv \<Rightarrow> pyerr + bool" where
  "py_contains k (JDict kvs) = Inr (map_of kvs k \<noteq> None)"
| "py_contains k (JList xs) = Inr (JStr k \<in> set xs)"
| "py_contains k (JStr s) = Inr (has_infix k s)"
| "py_contains k _ = Inl TypeError"

text \<open>\<^verbatim>\<open>x.get(k, d)\<close>: only a dictionary has the method.\<close>

fun py_get :: "jv \<Rightarrow> string \<Rightarrow> jv \<Rightarrow> pyerr + jv" where
  "py_get (JDict kvs) k d = Inr (case map_of kvs k of None \<Rightarrow> d | Some v \<Rightarrow> v)"
| "py_get _ k d = Inl AttributeError"

text \<open>\<^verbatim>\<open>x[k]\<close> for a string \<open>k\<close>: lists and strings want integer indices, the other values
  are not subscriptable.\<close>

fun py_getitem :: "jv \<Rightarrow> string \<Rightarrow> pyerr + jv" where
  "py_getitem (JDict kvs) k = (case map_of kvs k of None \<Rightarrow> Inl KeyError | Some v \<Rightarrow> Inr v)"
| "py_getitem _ k = Inl TypeError"

text \<open>\<^verbatim>\<open>for e in x\<close>: a list gives its elements, a dictionary its keys, a string its
  characters as one-character strings.\<close>

fun py_iter :: "jv \<Rightarrow> pyerr + jv list" where
  "py_iter (JList xs) = Inr xs"
| "py_iter (JDict kvs) = Inr (map (\<lambda>kv. JStr (fst kv)) kvs)"
| "py_iter (JStr s) = Inr (map (\<lambda>c. JStr [c]) s)"
| "py_iter _ = Inl TypeError"

text \<open>Truth value of a tree node in \<^verbatim>\<open>if x:\<close>.\<close>

fun py_truthy :: "jv \<Rightarrow> bool" where
  "py_truthy JNull = False"
| "py_truthy (JBool b) = b"
| "py_truthy (JNum n) = (n \<noteq> Fin 0)"
| "py_truthy (JStr s) = (s \<noteq> [])"
| "py_truthy (JList xs) = (xs \<noteq> [])"
| "py_truthy (JDict kvs) = (kvs \<noteq> [])"

text \<open>
  Membership in a \<^verbatim>\<open>set\<close> hashes the value: lists and dictionaries are unhashable, and
  \<^verbatim>\<open>True\<close> and \<^verbatim>\<open>False\<close> are the same set elements as \<^verbatim>\<open>1\<close> and \<^verbatim>\<open>0\<close>. A set of tree
  values is modelled as the set of these keys.
\<close>

fun py_hash_key :: "jv \<Rightarrow> pyerr + jv" where
  "py_hash_key (JList xs) = Inl TypeError"
| "py_hash_key (JDict kvs) = Inl TypeError"
| "py_hash_key (JBool b) = Inr (JNum (Fin (if b then 1 else 0)))"
| "py_hash_key v = Inr v"

text \<open>
  Ordering. Numbers and booleans compare by value. In this program one operand of
  every comparison is a number by the time the comparison runs (a literal, or a value
  that an earlier comparison with a number accepted), and a number against a string, list,
  dictionary or \<^verbatim>\<open>None\<close> raises \<^verbatim>\<open>TypeError\<close>; the orderings of two strings or two lists
  are therefore never reached and are not modelled.
\<close>

fun num_lt :: "pynum \<Rightarrow> pynum \<Rightarrow> bool" where
  "num_lt (Fin x) (Fin y) = (x < y)"
| "num_lt NegInf NegInf = False"
| "num_lt NegInf _ = True"
| "num_lt _ NegInf = False"
| "num_lt PosInf _ = False"
| "num_lt _ PosInf = True"

definition num_le :: "pynum \<Rightarrow> pynum \<Rightarrow> bool" where
  "num_le a b = (a = b \<or> num_lt a b)"

fun as_num :: "jv \<Rightarrow> pynum option" where
  "as_num (JNum n) = Some n"
| "as_num (JBool b) = Some (Fin (if b then 1 else 0))"
| "as_num _ = None"

definition py_lt :: "jv \<Rightarrow> jv \<Rightarrow> pyerr + bool" where
  "py_lt a b = (case (as_num a, as_num b) of
                  (Some x, Some y) \<Rightarrow> Inr (num_lt x y)
                | _ \<Rightarrow> Inl TypeError)"

definition py_le :: "jv \<Rightarrow> jv \<Rightarrow> pyerr + bool" where
  "py_le a b = (case (as_num a, as_num b) of
                  (Some x, Some y) \<Rightarrow> Inr (num_le x y)
                | _ \<Rightarrow> Inl TypeError)"

definition py_gt :: "jv \<Rightarrow> jv \<Rightarrow> pyerr + bool" where
  "py_gt a b = py_lt b a"

text \<open>\<^verbatim>\<open>x.startswith(p)\<close>: a method of strings only.\<close>

fun py_startswith :: "jv \<Rightarrow> string \<Rightarrow> pyerr + bool" where
  "py_startswith (JStr s) p = Inr (take (length p) s = p)"
| "py_startswith _ p = Inl AttributeError"

section \<open>The result accumulator\<close>

record ValidationResult =
  errors :: "msg list"
  warnings :: "msg list"
  info :: "msg list"
  profile :: "string option"

definition new_result :: ValidationResult where
  "new_result = \<lparr>errors = [], warnings = [], info = [], profile = None\<rparr>"

definition add_error :: "msg \<Rightarrow> ValidationResult \<Rightarrow> ValidationResult" where
  "add_error m r = r\<lparr>errors := errors r @ [m]\<rparr>"

definition add_warning :: "msg \<Rightarrow> ValidationResult \<Rightarrow> ValidationResult" where
  "add_warning m r = r\<lparr>warnings := warnings r @ [m]\<rparr>"

definition add_info :: "msg \<Rightarrow> ValidationResult \<Rightarrow> ValidationResult" where
  "add_info m r = r\<lparr>info := info r @ [m]\<rparr>"

text \<open>\<^verbatim>\<open>if c: result.add_error(m)\<close> and \<^verbatim>\<open>if c: result.add_warning(m)\<close>\<close>

definition error_if :: "bool \<Rightarrow> msg \<Rightarrow> ValidationResult \<Rightarrow> ValidationResult" where
  "error_if c m r = (if c then add_error m r else r)"

definition warning_if :: "bool \<Rightarrow> msg \<Rightarrow> ValidationResult \<Rightarrow> ValidationResult" where
  "warning_if c m r = (if c then add_warning m r else r)"

definition is_valid :: "ValidationResult \<Rightarrow> bool" where
  "is_valid r = (length (errors r) = 0)"

section \<open>Required-fields pass\<close>

definition validate_required_fields :: "jv \<Rightarrow> ValidationResult \<Rightarrow> pyerr + ValidationResult" where
  "validate_required_fields doc r0 =
     bindE (py_contains ''prosograph'' doc) (\<lambda>has_version.
     bindE (if \<not> has_version
            then Inr (add_error [Lit ''Missing required field: prosograph (version string)''] r0)
            else bindE (py_getitem doc ''prosograph'') (\<lambda>v.
                 bindE (py_startswith v ''1.'') (\<lambda>ok.
                 Inr (error_if (\<not> ok)
                        [Lit ''Unsupported version: '', Val v, Lit '' (expected 1.x)''] r0)))) (\<lambda>r1.
     bindE (py_contains ''audio'' doc) (\<lambda>has_audio.
     bindE (if \<not> has_audio
            then Inr (add_error [Lit ''Missing required field: audio''] r1)
            else bindE (py_getitem doc ''audio'') (\<lambda>audio.
                 bindE (py_contains ''uri'' audio) (\<lambda>has_uri.
                 let r2 = error_if (\<not> has_uri) [Lit ''Missing required field: audio.uri''] r1 in
                 bindE (py_contains ''duration_s'' audio) (\<lambda>has_duration.
                 if \<not> has_duration
                 then Inr (add_error [Lit ''Missing required field: audio.duration_s''] r2)
                 else bindE (py_getitem audio ''duration_s'') (\<lambda>d.
                      bindE (py_le d (JNum (Fin 0))) (\<lambda>nonpos.
                      Inr (error_if nonpos [Lit ''audio.duration_s must be > 0''] r2))))))) (\<lambda>r3.
     bindE (py_contains ''segments'' doc) (\<lambda>has_segments.
     Inr (error_if (\<not> has_segments) [Lit ''Missing required field: segments''] r3))))))"

section \<open>Temporal-constraints pass\<close>

text \<open>The body of the inner loop, for one token of a segment with times \<open>t0\<close>, \<open>t1\<close>.\<close>

definition temporal_token :: "jv \<Rightarrow> jv \<Rightarrow> jv \<Rightarrow> ValidationResult \<Rightarrow> pyerr + ValidationResult" where
  "temporal_token t0 t1 tok r =
     bindE (py_get tok ''id'' (JStr ''<unknown>'')) (\<lambda>tok_id.
     bindE (py_get tok ''t0'' JNull) (\<lambda>tok_t0.
     bindE (py_get tok ''t1'' JNull) (\<lambda>tok_t1.
     if tok_t0 = JNull \<or> tok_t1 = JNull
     then Inr (add_error [Lit ''Token '', Val tok_id, Lit '': missing t0 or t1''] r)
     else
       bindE (py_lt tok_t0 t0) (\<lambda>c1.
       let r1 = error_if c1 [Lit ''Token '', Val tok_id, Lit '': t0 ('', Val tok_t0,
                             Lit '') < segment t0 ('', Val t0, Lit '')''] r in
       bindE (py_gt tok_t1 t1) (\<lambda>c2.
       let r2 = error_if c2 [Lit ''Token '', Val tok_id, Lit '': t1 ('', Val tok_t1,
                             Lit '') > segment t1 ('', Val t1, Lit '')''] r1 in
       bindE (py_le tok_t1 tok_t0) (\<lambda>c3.
       Inr (error_if c3 [Lit ''Token '', Val tok_id, Lit '': t1 ('', Val tok_t1,
                         Lit '') must be > t0 ('', Val tok_t0, Lit '')''] r2)))))))"

text \<open>The body of the outer loop, for one segment.\<close>

definition temporal_segment :: "jv \<Rightarrow> jv \<Rightarrow> ValidationResult \<Rightarrow> pyerr + ValidationResult" where
  "temporal_segment duration seg r =
     bindE (py_get seg ''id'' (JStr ''<unknown>'')) (\<lambda>seg_id.
     bindE (py_get seg ''t0'' JNull) (\<lambda>t0.
     bindE (py_get seg ''t1'' JNull) (\<lambda>t1.
     if t0 = JNull
     then Inr (add_error [Lit ''Segment '', Val seg_id, Lit '': missing t0''] r)
     else if t1 = JNull
     then Inr (add_error [Lit ''Segment '', Val seg_id, Lit '': missing t1''] r)
     else
       bindE (py_lt t0 (JNum (Fin 0))) (\<lambda>c1.
       let r1 = error_if c1 [Lit ''Segment '', Val seg_id, Lit '': t0 ('', Val t0,
                             Lit '') < 0''] r in
       bindE (py_le t1 t0) (\<lambda>c2.
       let r2 = error_if c2 [Lit ''Segment '', Val seg_id, Lit '': t1 ('', Val t1,
                             Lit '') must be > t0 ('', Val t0, Lit '')''] r1 in
       bindE (py_gt t1 duration) (\<lambda>c3.
       let r3 = error_if c3 [Lit ''Segment '', Val seg_id, Lit '': t1 ('', Val t1,
                             Lit '') > duration ('', Val duration, Lit '')''] r2 in
       bindE (py_get seg ''tokens'' (JList [])) (\<lambda>toks.
       bindE (py_iter toks) (\<lambda>tl.
       forE tl (temporal_token t0 t1) r3))))))))"

definition validate_temporal_constraints :: "jv \<Rightarrow> ValidationResult \<Rightarrow> pyerr + ValidationResult" where
  "validate_temporal_constraints doc r =
     bindE (py_get doc ''audio'' (JDict [])) (\<lambda>audio.
     bindE (py_get audio ''duration_s'' (JNum PosInf)) (\<lambda>duration.
     bindE (py_get doc ''segments'' (JList [])) (\<lambda>segs.
     bindE (py_iter segs) (\<lambda>sl.
     forE sl (temporal_segment duration) r))))"

section \<open>ID-uniqueness pass\<close>

text \<open>
  The state of the loops is the set of segment IDs seen, the set of token IDs seen and
  the accumulator. \<^verbatim>\<open>if tok_id:\<close> is Python's truth test, the membership test hashes.
\<close>

type_synonym uniq_state = "jv set \<times> jv set \<times> ValidationResult"

definition uniqueness_token :: "jv \<Rightarrow> uniq_state \<Rightarrow> pyerr + uniq_state" where
  "uniqueness_token tok st =
     (case st of (segment_ids, token_ids, r) \<Rightarrow>
     bindE (py_get tok ''id'' JNull) (\<lambda>tok_id.
     if py_truthy tok_id
     then bindE (py_hash_key tok_id) (\<lambda>k.
          Inr (segment_ids, insert k token_ids,
               error_if (k \<in> token_ids) [Lit ''Duplicate token ID: '', Val tok_id] r))
     else Inr (segment_ids, token_ids,
               add_error [Lit ''Token missing required 'id' field''] r)))"

definition uniqueness_segment :: "jv \<Rightarrow> uniq_state \<Rightarrow> pyerr + uniq_state" where
  "uniqueness_segment seg st =
     (case st of (segment_ids, token_ids, r) \<Rightarrow>
     bindE (py_get seg ''id'' JNull) (\<lambda>seg_id.
     bindE (if py_truthy seg_id
            then bindE (py_hash_key seg_id) (\<lambda>k.
                 Inr (insert k segment_ids, token_ids,
                      error_if (k \<in> segment_ids) [Lit ''Duplicate segment ID: '', Val seg_id] r))
            else Inr (segment_ids, token_ids,
                      add_error [Lit ''Segment missing required 'id' field''] r))
       (\<lambda>st1.
     bindE (py_get seg ''tokens'' (JList [])) (\<lambda>toks.
     bindE (py_iter toks) (\<lambda>tl.
     forE tl uniqueness_token st1)))))"

definition validate_id_uniqueness :: "jv \<Rightarrow> ValidationResult \<Rightarrow> pyerr + ValidationResult" where
  "validate_id_uniqueness doc r =
     bindE (py_get doc ''segments'' (JList [])) (\<lambda>segs.
     bindE (py_iter segs) (\<lambda>sl.
     bindE (forE sl uniqueness_segment ({}, {}, r)) (\<lambda>st.
     Inr (snd (snd st)))))"

section \<open>Reference-resolution pass\<close>

definition collect_token :: "jv \<Rightarrow> jv set \<Rightarrow> pyerr + jv set" where
  "collect_token tok token_ids =
     bindE (py_contains ''id'' tok) (\<lambda>has_id.
     if has_id
     then bindE (py_getitem tok ''id'') (\<lambda>v.
          bindE (py_hash_key v) (\<lambda>k. Inr (insert k token_ids)))
     else Inr token_ids)"

definition collect_segment :: "jv \<Rightarrow> jv set \<Rightarrow> pyerr + jv set" where
  "collect_segment seg token_ids =
     bindE (py_get seg ''tokens'' (JList [])) (\<lambda>toks.
     bindE (py_iter toks) (\<lambda>tl.
     forE tl collect_token token_ids))"

definition references_ref :: "jv set \<Rightarrow> jv \<Rightarrow> ValidationResult \<Rightarrow> pyerr + ValidationResult" where
  "references_ref token_ids ref_id r =
     bindE (py_hash_key ref_id) (\<lambda>k.
     Inr (error_if (k \<notin> token_ids)
            [Lit ''Emphasis references non-existent token: '', Val ref_id] r))"

definition references_emphasis :: "jv set \<Rightarrow> jv \<Rightarrow> ValidationResult \<Rightarrow> pyerr + ValidationResult" where
  "references_emphasis token_ids emphasis r =
     bindE (py_get emphasis ''span'' JNull) (\<lambda>span.
     case span of
       JDict kvs \<Rightarrow>
         bindE (py_contains ''token_ids'' span) (\<lambda>has_ids.
         if has_ids
         then bindE (py_getitem span ''token_ids'') (\<lambda>refs.
              bindE (py_iter refs) (\<lambda>rl.
              forE rl (references_ref token_ids) r))
         else Inr r)
     | _ \<Rightarrow> Inr r)"

definition references_segment :: "jv set \<Rightarrow> jv \<Rightarrow> ValidationResult \<Rightarrow> pyerr + ValidationResult" where
  "references_segment token_ids seg r =
     bindE (py_get seg ''tracks'' (JDict [])) (\<lambda>tracks.
     bindE (py_get tracks ''delivery'' (JDict [])) (\<lambda>delivery.
     bindE (py_get delivery ''emphasis'' (JList [])) (\<lambda>em.
     bindE (py_iter em) (\<lambda>el.
     forE el (references_emphasis token_ids) r))))"

definition validate_references :: "jv \<Rightarrow> ValidationResult \<Rightarrow> pyerr + ValidationResult" where
  "validate_references doc r =
     bindE (py_get doc ''segments'' (JList [])) (\<lambda>segs.
     bindE (py_iter segs) (\<lambda>sl.
     bindE (forE sl collect_segment {}) (\<lambda>token_ids.
     bindE (py_get doc ''segments'' (JList [])) (\<lambda>segs2.
     bindE (py_iter segs2) (\<lambda>sl2.
     forE sl2 (references_segment token_ids) r)))))"

section \<open>Numeric-range pass\<close>

text \<open>A path is the f-string that names the field; the helpers extend it.\<close>

definition check_unit :: "jv \<Rightarrow> msg \<Rightarrow> ValidationResult \<Rightarrow> pyerr + ValidationResult" where
  "check_unit v path r =
     (if v = JNull then Inr r
      else bindE (py_lt v (JNum (Fin 0))) (\<lambda>below.
           bindE (if below then Inr True else py_gt v (JNum (Fin 1))) (\<lambda>out.
           Inr (error_if out (path @ [Lit '': value '', Val v, Lit '' not in [0,1]'']) r))))"

definition check_signed_unit :: "jv \<Rightarrow> msg \<Rightarrow> ValidationResult \<Rightarrow> pyerr + ValidationResult" where
  "check_signed_unit v path r =
     (if v = JNull then Inr r
      else bindE (py_lt v (JNum (Fin (- 1)))) (\<lambda>below.
           bindE (if below then Inr True else py_gt v (JNum (Fin 1))) (\<lambda>out.
           Inr (error_if out (path @ [Lit '': value '', Val v, Lit '' not in [-1,1]'']) r))))"

definition check_emotion :: "jv \<Rightarrow> msg \<Rightarrow> ValidationResult \<Rightarrow> pyerr + ValidationResult" where
  "check_emotion emotion path r =
     bindE (py_get emotion ''vad'' (JDict [])) (\<lambda>vad.
     bindE (py_get vad ''valence'' JNull) (\<lambda>valence.
     bindE (check_signed_unit valence (path @ [Lit ''.vad.valence'']) r) (\<lambda>r1.
     bindE (py_get vad ''arousal'' JNull) (\<lambda>arousal.
     bindE (check_unit arousal (path @ [Lit ''.vad.arousal'']) r1) (\<lambda>r2.
     bindE (py_get vad ''dominance'' JNull) (\<lambda>dominance.
     bindE (check_unit dominance (path @ [Lit ''.vad.dominance'']) r2) (\<lambda>r3.
     bindE (py_get emotion ''confidence'' JNull) (\<lambda>confidence.
     check_unit confidence (path @ [Lit ''.confidence'']) r3))))))))"

definition check_voice_quality :: "jv \<Rightarrow> msg \<Rightarrow> ValidationResult \<Rightarrow> pyerr + ValidationResult" where
  "check_voice_quality vq path r =
     forE [''creak'', ''breathiness'', ''nasal'', ''tension'', ''smile'']
       (\<lambda>key r'. bindE (py_get vq key JNull) (\<lambda>v. check_unit v (path @ [Lit ''.'', Lit key]) r')) r"

text \<open>Decimal rendering of a loop index, for the default names \<^verbatim>\<open>segment[i]\<close>, \<^verbatim>\<open>token[j]\<close>.\<close>

fun string_of_nat :: "nat \<Rightarrow> string" where
  "string_of_nat n =
     (if n < 10 then [''0123456789'' ! n]
      else string_of_nat (n div 10) @ [''0123456789'' ! (n mod 10)])"

definition ranges_token :: "nat \<times> jv \<Rightarrow> ValidationResult \<Rightarrow> pyerr + ValidationResult" where
  "ranges_token jt r =
     (case jt of (j, tok) \<Rightarrow>
     bindE (py_get tok ''id'' (JStr (''token['' @ string_of_nat j @ '']''))) (\<lambda>tok_id.
     bindE (py_get tok ''tracks'' (JDict [])) (\<lambda>tok_tracks.
     bindE (py_contains ''emotion'' tok_tracks) (\<lambda>has_e.
     bindE (if has_e
            then bindE (py_getitem tok_tracks ''emotion'') (\<lambda>e.
                 check_emotion e [Val tok_id, Lit ''.tracks.emotion''] r)
            else Inr r) (\<lambda>r1.
     bindE (py_contains ''voice_quality'' tok_tracks) (\<lambda>has_vq.
     bindE (if has_vq
            then bindE (py_getitem tok_tracks ''voice_quality'') (\<lambda>vq.
                 check_voice_quality vq [Val tok_id, Lit ''.tracks.voice_quality''] r1)
            else Inr r1) (\<lambda>r2.
     bindE (py_contains ''tone'' tok_tracks) (\<lambda>has_tone.
     if has_tone
     then bindE (py_getitem tok_tracks ''tone'') (\<lambda>tone.
          bindE (py_get tone ''confidence'' JNull) (\<lambda>c.
          check_unit c [Val tok_id, Lit ''.tracks.tone.confidence''] r2))
     else Inr r2))))))))"

definition ranges_segment :: "nat \<times> jv \<Rightarrow> ValidationResult \<Rightarrow> pyerr + ValidationResult" where
  "ranges_segment iseg r =
     (case iseg of (i, seg) \<Rightarrow>
     bindE (py_get seg ''id'' (JStr (''segment['' @ string_of_nat i @ '']''))) (\<lambda>seg_id.
     bindE (py_get seg ''tracks'' (JDict [])) (\<lambda>tracks.
     bindE (py_contains ''emotion'' tracks) (\<lambda>has_e.
     bindE (if has_e
            then bindE (py_getitem tracks ''emotion'') (\<lambda>e.
                 check_emotion e [Val seg_id, Lit ''.tracks.emotion''] r)
            else Inr r) (\<lambda>r1.
     bindE (py_contains ''voice_quality'' tracks) (\<lambda>has_vq.
     bindE (if has_vq
            then bindE (py_getitem tracks ''voice_quality'') (\<lambda>vq.
                 check_voice_quality vq [Val seg_id, Lit ''.tracks.voice_quality''] r1)
            else Inr r1) (\<lambda>r2.
     bindE (py_contains ''delivery'' tracks) (\<lambda>has_d.
     bindE (if has_d
            then bindE (py_getitem tracks ''delivery'') (\<lambda>delivery.
                 bindE (py_get delivery ''clarity'' JNull) (\<lambda>c.
                 check_unit c [Val seg_id, Lit ''.tracks.delivery.clarity''] r2))
            else Inr r2) (\<lambda>r3.
     bindE (py_get seg ''tokens'' (JList [])) (\<lambda>toks.
     bindE (py_iter toks) (\<lambda>tl.
     forE (enumerate 0 tl) ranges_token r3)))))))))))"

definition validate_ranges :: "jv \<Rightarrow> ValidationResult \<Rightarrow> pyerr + ValidationResult" where
  "validate_ranges doc r =
     bindE (py_get doc ''defaults'' (JDict [])) (\<lambda>defaults.
     bindE (py_get defaults ''style'' (JDict [])) (\<lambda>defaults_style.
     bindE (py_contains ''emotion'' defaults_style) (\<lambda>has_e.
     bindE (if has_e
            then bindE (py_getitem defaults_style ''emotion'') (\<lambda>e.
                 check_emotion e [Lit ''defaults.style.emotion''] r)
            else Inr r) (\<lambda>r1.
     bindE (py_contains ''voice_quality'' defaults_style) (\<lambda>has_vq.
     bindE (if has_vq
            then bindE (py_getitem defaults_style ''voice_quality'') (\<lambda>vq.
                 check_voice_quality vq [Lit ''defaults.style.voice_quality''] r1)
            else Inr r1) (\<lambda>r2.
     bindE (py_get doc ''segments'' (JList [])) (\<lambda>segs.
     bindE (py_iter segs) (\<lambda>sl.
     forE (enumerate 0 sl) ranges_segment r2))))))))"

section \<open>Tonal-language pass\<close>

definition tonal_langs :: "string set" where
  "tonal_langs = {''th'', ''zh'', ''vi'', ''yue'', ''cmn''}"

text \<open>
  \<^verbatim>\<open>str.lower\<close> on the letters A to Z. Strings are UTF-8 bytes here, and no character
  outside ASCII lowers to a string of ASCII letters only, so the membership of the
  lowered prefix in \<open>tonal_langs\<close> is the same as in Python.
\<close>

definition ascii_lower :: "char \<Rightarrow> char" where
  "ascii_lower c =
     (case map_of (zip ''ABCDEFGHIJKLMNOPQRSTUVWXYZ'' ''abcdefghijklmnopqrstuvwxyz'') c of
        None \<Rightarrow> c | Some l \<Rightarrow> l)"

text \<open>\<^verbatim>\<open>lang.split('-')[0].lower() if lang else ''\<close>\<close>

definition lang_prefix :: "jv \<Rightarrow> pyerr + string" where
  "lang_prefix lang =
     (if py_truthy lang
      then (case lang of
              JStr s \<Rightarrow> Inr (map ascii_lower (takeWhile (\<lambda>c. c \<noteq> CHR ''-'') s))
            | _ \<Rightarrow> Inl AttributeError)
      else Inr [])"

definition tonal_token :: "jv \<Rightarrow> ValidationResult \<Rightarrow> pyerr + ValidationResult" where
  "tonal_token tok r =
     bindE (py_get tok ''id'' (JStr ''<unknown>'')) (\<lambda>tok_id.
     bindE (py_get tok ''kind'' (JStr ''word'')) (\<lambda>kind.
     if kind \<in> {JStr ''word'', JStr ''morpheme'', JStr ''char''}
     then bindE (py_get tok ''tracks'' (JDict [])) (\<lambda>tracks.
          bindE (py_get tracks ''tone'' (JDict [])) (\<lambda>tok_tone.
          bindE (py_contains ''lexical'' tok_tone) (\<lambda>has_lexical.
          Inr (warning_if (\<not> has_lexical)
                 [Lit ''Token '', Val tok_id, Lit '': tonal language but no tone.lexical''] r))))
     else Inr r))"

definition tonal_segment :: "jv \<Rightarrow> jv \<Rightarrow> ValidationResult \<Rightarrow> pyerr + ValidationResult" where
  "tonal_segment default_lang seg r =
     bindE (py_get seg ''id'' (JStr ''<unknown>'')) (\<lambda>seg_id.
     bindE (py_get seg ''language'' default_lang) (\<lambda>lang.
     bindE (lang_prefix lang) (\<lambda>lp.
     if lp \<in> tonal_langs
     then bindE (py_get seg ''tracks'' (JDict [])) (\<lambda>tracks.
          bindE (py_get tracks ''tone'' (JDict [])) (\<lambda>tone.
          bindE (py_contains ''system'' tone) (\<lambda>has_system.
          let r1 = warning_if (\<not> has_system)
                     [Lit ''Segment '', Val seg_id, Lit '': tonal language ('', Val lang,
                      Lit '') but no tone.system declared''] r in
          bindE (py_get seg ''tokens'' (JList [])) (\<lambda>toks.
          bindE (py_iter toks) (\<lambda>tl.
          forE tl tonal_token r1)))))
     else Inr r)))"

definition validate_tonal_requirements :: "jv \<Rightarrow> ValidationResult \<Rightarrow> pyerr + ValidationResult" where
  "validate_tonal_requirements doc r =
     bindE (py_get doc ''defaults'' (JDict [])) (\<lambda>defaults.
     bindE (py_get defaults ''language'' (JStr [])) (\<lambda>default_lang.
     bindE (py_get doc ''segments'' (JList [])) (\<lambda>segs.
     bindE (py_iter segs) (\<lambda>sl.
     forE sl (tonal_segment default_lang) r))))"

section \<open>Profile detection\<close>

text \<open>\<^verbatim>\<open>any(k in tracks for k in keys)\<close>, which stops at the first key found.\<close>

fun any_in :: "string list \<Rightarrow> jv \<Rightarrow> pyerr + bool" where
  "any_in [] x = Inr False"
| "any_in (k # ks) x = bindE (py_contains k x) (\<lambda>b. if b then Inr True else any_in ks x)"

text \<open>The loop state is the pair \<open>(has_expressive, has_tonal)\<close>.\<close>

definition profile_segment :: "jv \<Rightarrow> jv \<Rightarrow> bool \<times> bool \<Rightarrow> pyerr + bool \<times> bool" where
  "profile_segment default_lang seg st =
     (case st of (has_expressive, has_tonal) \<Rightarrow>
     bindE (py_get seg ''tracks'' (JDict [])) (\<lambda>tracks.
     bindE (any_in [''emotion'', ''prosody'', ''delivery'', ''voice_quality''] tracks) (\<lambda>expressive.
     let has_expressive1 = (if expressive then True else has_expressive) in
     bindE (py_get seg ''language'' default_lang) (\<lambda>lang.
     bindE (lang_prefix lang) (\<lambda>lp.
     if lp \<in> tonal_langs
     then bindE (py_contains ''tone'' tracks) (\<lambda>has_tone.
          if has_tone
          then bindE (py_get tracks ''tone'' (JDict [])) (\<lambda>tone.
               bindE (py_contains ''system'' tone) (\<lambda>has_system.
               Inr (has_expressive1, if has_system then True else has_tonal)))
          else Inr (has_expressive1, has_tonal))
     else Inr (has_expressive1, has_tonal))))))"

definition detect_profile :: "jv \<Rightarrow> ValidationResult \<Rightarrow> pyerr + ValidationResult" where
  "detect_profile doc r =
     bindE (py_get doc ''defaults'' (JDict [])) (\<lambda>defaults.
     bindE (py_get defaults ''language'' (JStr [])) (\<lambda>default_lang.
     bindE (py_get doc ''segments'' (JList [])) (\<lambda>segs.
     bindE (py_iter segs) (\<lambda>sl.
     bindE (forE sl (profile_segment default_lang) (False, False)) (\<lambda>flags.
     let r1 = (if fst flags \<and> snd flags
               then r\<lparr>profile := Some ''PG-Tonal (includes PG-Expressive, PG-Core)''\<rparr>
               else if fst flags
               then r\<lparr>profile := Some ''PG-Expressive (includes PG-Core)''\<rparr>
               else r\<lparr>profile := Some ''PG-Core''\<rparr>) in
     bindE (py_get doc ''meta'' (JDict [])) (\<lambda>meta.
     bindE (py_get meta ''profile'' JNull) (\<lambda>declared.
     Inr (if py_truthy declared
          then add_info [Lit ''Declared profile: '', Val declared] r1
          else r1))))))))"

section \<open>The validation run\<close>

text \<open>
  Schema validation is done by the \<^verbatim>\<open>jsonschema\<close> package, outside this program: it
  catches its own exceptions and only appends to the accumulator, so it is the
  parameter \<open>schema_step\<close>.
\<close>

definition validate :: "(ValidationResult \<Rightarrow> ValidationResult) \<Rightarrow> jv \<Rightarrow> pyerr + ValidationResult" where
  "validate schema_step doc =
     bindE (validate_required_fields doc (schema_step new_result)) (\<lambda>r1.
     bindE (validate_temporal_constraints doc r1) (\<lambda>r2.
     bindE (validate_id_uniqueness doc r2) (\<lambda>r3.
     bindE (validate_references doc r3) (\<lambda>r4.
     bindE (validate_ranges doc r4) (\<lambda>r5.
     bindE (validate_tonal_requirements doc r5) (\<lambda>r6.
     detect_profile doc r6))))))"

section \<open>Vocabulary of the statements\<close>

text \<open>
  The literal pieces of a message, in order: they tell which f-string of the source
  produced it, whatever values were interpolated.
\<close>

fun lits :: "msg \<Rightarrow> string list" where
  "lits [] = []"
| "lits (Lit s # m) = s # lits m"
| "lits (Val v # m) = lits m"

text \<open>
  \<open>appends P r r'\<close>: the accumulator \<open>r'\<close> is \<open>r\<close> with errors appended, each of
  which satisfies \<open>P\<close>; nothing else has changed. \<open>warns P r r'\<close> is the same for the
  warning list.
\<close>

definition appends :: "(msg \<Rightarrow> bool) \<Rightarrow> ValidationResult \<Rightarrow> ValidationResult \<Rightarrow> bool" where
  "appends P r r' = (\<exists>ys. r' = r\<lparr>errors := errors r @ ys\<rparr> \<and> list_all P ys)"


text \<open>\<^verbatim>\<open>x.get('id', '<unknown>')\<close> on a dictionary.\<close>

definition id_or_unknown :: "(string \<times> jv) list \<Rightarrow> jv" where
  "id_or_unknown kvs = (case map_of kvs ''id'' of None \<Rightarrow> JStr ''<unknown>'' | Some v \<Rightarrow> v)"

text \<open>
  The errors that the nesting invariant \<open>A \<le> a < b \<le> B\<close> of a token \<open>[a, b]\<close> in a
  segment \<open>[A, B]\<close> calls for: one per violated clause, in the order of the source.
\<close>

definition nesting_errors :: "jv \<Rightarrow> pynum \<Rightarrow> pynum \<Rightarrow> pynum \<Rightarrow> pynum \<Rightarrow> msg list" where
  "nesting_errors tok_id a b A B =
     (if num_lt a A
      then [[Lit ''Token '', Val tok_id, Lit '': t0 ('', Val (JNum a),
             Lit '') < segment t0 ('', Val (JNum A), Lit '')'']]
      else [])
   @ (if num_lt B b
      then [[Lit ''Token '', Val tok_id, Lit '': t1 ('', Val (JNum b),
             Lit '') > segment t1 ('', Val (JNum B), Lit '')'']]
      else [])
   @ (if num_le b a
      then [[Lit ''Token '', Val tok_id, Lit '': t1 ('', Val (JNum b),
             Lit '') must be > t0 ('', Val (JNum a), Lit '')'']]
      else [])"

text \<open>The four messages of the token loop of the temporal pass.\<close>

definition token_error :: "msg \<Rightarrow> bool" where
  "token_error m =
     (lits m = [''Token '', '': missing t0 or t1'']
      \<or> lits m = [''Token '', '': t0 ('', '') < segment t0 ('', '')'']
      \<or> lits m = [''Token '', '': t1 ('', '') > segment t1 ('', '')'']
      \<or> lits m = [''Token '', '': t1 ('', '') must be > t0 ('', '')''])"

text \<open>The message \<^verbatim>\<open>Segment {id}: t1 ({t1}) > duration ({duration})\<close>.\<close>

definition is_duration_error :: "msg \<Rightarrow> bool" where
  "is_duration_error m = (lits m = [''Segment '', '': t1 ('', '') > duration ('', '')''])"

section \<open>Example documents\<close>

text \<open>
  One segment \<open>[0, 5]\<close> of an audio of 10 seconds, with one token \<open>[0, 6]\<close> that ends
  after its segment.
\<close>

definition ex_token :: "(string \<times> jv) list" where
  "ex_token = [(''id'', JStr ''w1''), (''t0'', JNum (Fin 0)), (''t1'', JNum (Fin 6))]"

definition ex_segment :: "(string \<times> jv) list" where
  "ex_segment = [(''id'', JStr ''s1''), (''t0'', JNum (Fin 0)), (''t1'', JNum (Fin 5)),
                 (''tokens'', JList [JDict ex_token])]"

definition ex_doc :: "(string \<times> jv) list" where
  "ex_doc = [(''prosograph'', JStr ''1.0''),
             (''audio'', JDict [(''uri'', JStr ''a.wav''), (''duration_s'', JNum (Fin 10))]),
             (''segments'', JList [JDict ex_segment])]"

text \<open>A segment \<open>[0, 12]\<close> that ends after the audio, with and without a known duration.\<close>

definition ex_long_segment :: "(string \<times> jv) list" where
  "ex_long_segment = [(''id'', JStr ''s1''), (''t0'', JNum (Fin 0)), (''t1'', JNum (Fin 12))]"

definition ex_long_doc :: "(string \<times> jv) list" where
  "ex_long_doc = [(''prosograph'', JStr ''1.0''),
                  (''audio'', JDict [(''uri'', JStr ''a.wav''), (''duration_s'', JNum (Fin 10))]),
                  (''segments'', JList [JDict ex_long_segment])]"

definition ex_no_duration_doc :: "(string \<times> jv) list" where
  "ex_no_duration_doc = [(''prosograph'', JStr ''1.0''),
                         (''audio'', JDict [(''uri'', JStr ''a.wav'')]),
                         (''segments'', JList [JDict ex_long_segment])]"

section \<open>Vocabulary of the ID-uniqueness statements\<close>






definition is_dup_segment :: "msg \<Rightarrow> bool" where
  "is_dup_segment m = (lits m = [''Duplicate segment ID: ''])"

definition is_dup_token :: "msg \<Rightarrow> bool" where
  "is_dup_token m = (lits m = [''Duplicate token ID: ''])"





section \<open>Vocabulary of the required-fields statements\<close>

text \<open>
  From the specification's words, for comparison with the code: the major segment of a
  version string is the text before its first dot.
\<close>

definition major_segment :: "string \<Rightarrow> string" where
  "major_segment v = takeWhile (\<lambda>c. c \<noteq> CHR ''.'') v"

text \<open>The two messages about the version field.\<close>

definition is_version_error :: "msg \<Rightarrow> bool" where
  "is_version_error m =
     (lits m = [''Missing required field: prosograph (version string)'']
      \<or> lits m = [''Unsupported version: '', '' (expected 1.x)''])"

text \<open>A complete document without segments, for a given version value.\<close>

definition ex_versioned_doc :: "jv \<Rightarrow> (string \<times> jv) list" where
  "ex_versioned_doc v =
     [(''prosograph'', v),
      (''audio'', JDict [(''uri'', JStr ''a.wav''), (''duration_s'', JNum (Fin 10))]),
      (''segments'', JList [])]"

section \<open>Vocabulary of the tonal statements\<close>

text \<open>\<^verbatim>\<open>x.get(k, d)\<close> where it does not raise, \<open>d\<close> otherwise.\<close>

definition get_or :: "string \<Rightarrow> jv \<Rightarrow> jv \<Rightarrow> jv" where
  "get_or k d x = (case py_get x k d of Inr v \<Rightarrow> v | Inl e \<Rightarrow> d)"

text \<open>Whether \<^verbatim>\<open>x.get('tracks', {}).get('tone', {})\<close> has the key \<open>k\<close>.\<close>

definition has_tone_field :: "string \<Rightarrow> jv \<Rightarrow> bool" where
  "has_tone_field k x =
     (case py_contains k (get_or ''tone'' (JDict []) (get_or ''tracks'' (JDict []) x)) of
        Inr b \<Rightarrow> b | Inl e \<Rightarrow> False)"

text \<open>The effective language of a segment, and whether a language is tonal.\<close>

definition effective_language :: "jv \<Rightarrow> jv \<Rightarrow> jv" where
  "effective_language default_lang seg = get_or ''language'' default_lang seg"

definition tonal_language :: "jv \<Rightarrow> bool" where
  "tonal_language lang = (case lang_prefix lang of Inr lp \<Rightarrow> lp \<in> tonal_langs | Inl e \<Rightarrow> False)"





section \<open>Vocabulary of the profile statements\<close>

text \<open>A segment is expressive when its \<^verbatim>\<open>tracks\<close> has one of the four expressive keys.\<close>

definition seg_expressive :: "jv \<Rightarrow> bool" where
  "seg_expressive seg =
     (case any_in [''emotion'', ''prosody'', ''delivery'', ''voice_quality'']
             (get_or ''tracks'' (JDict []) seg) of
        Inr b \<Rightarrow> b | Inl e \<Rightarrow> False)"

text \<open>A segment counts as tonal when its effective language is tonal and its
  \<^verbatim>\<open>tracks.tone.system\<close> is present.\<close>

definition seg_tonal :: "jv \<Rightarrow> jv \<Rightarrow> bool" where
  "seg_tonal default_lang seg =
     (tonal_language (effective_language default_lang seg) \<and> has_tone_field ''system'' seg)"

text \<open>\<^verbatim>\<open>doc.get('defaults', {}).get('language', '')\<close> where it does not raise.\<close>

definition default_language :: "(string \<times> jv) list \<Rightarrow> jv" where
  "default_language d = get_or ''language'' (JStr []) (get_or ''defaults'' (JDict []) (JDict d))"

text \<open>A Thai segment that declares its tone system, and a segment with an emotion track.\<close>

definition ex_thai_segment :: jv where
  "ex_thai_segment =
     JDict [(''id'', JStr ''s1''), (''language'', JStr ''th''),
            (''tracks'', JDict [(''tone'', JDict [(''system'', JStr ''thai-5'')])])]"

definition ex_emotion_segment :: jv where
  "ex_emotion_segment =
     JDict [(''id'', JStr ''s2''), (''language'', JStr ''en''),
            (''tracks'', JDict [(''emotion'', JDict [(''confidence'', JNum (Fin 1))])])]"

text \<open>A document of given segments that declares a given profile.\<close>

definition ex_profile_doc :: "jv list \<Rightarrow> jv \<Rightarrow> (string \<times> jv) list" where
  "ex_profile_doc segs declared =
     [(''segments'', JList segs), (''meta'', JDict [(''profile'', declared)])]"

section \<open>Vocabulary of the reference statements\<close>


text \<open>The tokens of a document that have the key \<^verbatim>\<open>id\<close>, and the set of their IDs.\<close>

definition has_id :: "jv \<Rightarrow> bool" where
  "has_id tok = (py_contains ''id'' tok = Inr True)"








section \<open>Basic facts\<close>

lemma bindE_Inr [simp]: "bindE (Inr v) f = f v"
  by (simp add: bindE_def)

lemma bindE_Inl [simp]: "bindE (Inl e) f = Inl e"
  by (simp add: bindE_def)

lemma bindE_eq_Inr: "bindE m f = Inr y \<longleftrightarrow> (\<exists>v. m = Inr v \<and> f v = Inr y)"
  by (cases m) simp_all

lemma errors_add_error [simp]: "errors (add_error m r) = errors r @ [m]"
  and warnings_add_error [simp]: "warnings (add_error m r) = warnings r"
  and info_add_error [simp]: "info (add_error m r) = info r"
  and profile_add_error [simp]: "profile (add_error m r) = profile r"
  by (simp_all add: add_error_def)

lemma errors_add_warning [simp]: "errors (add_warning m r) = errors r"
  and warnings_add_warning [simp]: "warnings (add_warning m r) = warnings r @ [m]"
  and info_add_warning [simp]: "info (add_warning m r) = info r"
  and profile_add_warning [simp]: "profile (add_warning m r) = profile r"
  by (simp_all add: add_warning_def)

lemma errors_add_info [simp]: "errors (add_info m r) = errors r"
  and warnings_add_info [simp]: "warnings (add_info m r) = warnings r"
  and info_add_info [simp]: "info (add_info m r) = info r @ [m]"
  and profile_add_info [simp]: "profile (add_info m r) = profile r"
  by (simp_all add: add_info_def)

lemma py_lt_num [simp]: "py_lt (JNum a) (JNum b) = Inr (num_lt a b)"
  by (simp add: py_lt_def)

lemma py_gt_num [simp]: "py_gt (JNum a) (JNum b) = Inr (num_lt b a)"
  by (simp add: py_gt_def)

lemma py_le_num [simp]: "py_le (JNum a) (JNum b) = Inr (num_le a b)"
  by (simp add: py_le_def)

section \<open>The accumulator: validity and append-only lists\<close>

lemma fold_add_warning:
  "errors (fold add_warning ws r) = errors r \<and> info (fold add_warning ws r) = info r
   \<and> warnings (fold add_warning ws r) = warnings r @ ws"
  by (induction ws arbitrary: r) simp_all

lemma fold_add_info:
  "errors (fold add_info ms r) = errors r \<and> warnings (fold add_info ms r) = warnings r
   \<and> info (fold add_info ms r) = info r @ ms"
  by (induction ms arbitrary: r) simp_all

text \<open>
  C9. \<open>is_valid\<close> holds exactly when the error list is empty. Adding any list of
  warnings or of info entries leaves \<open>is_valid\<close> as it was. Each of the three
  operations appends one entry to its own list and leaves the two other lists as they
  were, so no entry is removed or changed.
\<close>

theorem is_valid_iff_no_errors:
  "(is_valid r \<longleftrightarrow> errors r = [])
   \<and> is_valid (fold add_warning ws r) = is_valid r
   \<and> is_valid (fold add_info ms r) = is_valid r
   \<and> errors (add_error m r) = errors r @ [m]
   \<and> warnings (add_error m r) = warnings r
   \<and> info (add_error m r) = info r
   \<and> errors (add_warning m r) = errors r
   \<and> warnings (add_warning m r) = warnings r @ [m]
   \<and> info (add_warning m r) = info r
   \<and> errors (add_info m r) = errors r
   \<and> warnings (add_info m r) = warnings r
   \<and> info (add_info m r) = info r @ [m]"
  by (simp add: is_valid_def fold_add_warning fold_add_info)

section \<open>Numeric ranges\<close>


lemma error_if_simps [simp]:
  "errors (error_if c m r) = errors r @ (if c then [m] else [])"
  "warnings (error_if c m r) = warnings r"
  "info (error_if c m r) = info r"
  "profile (error_if c m r) = profile r"
  by (simp_all add: error_if_def)

lemma warning_if_simps [simp]:
  "errors (warning_if c m r) = errors r"
  "warnings (warning_if c m r) = warnings r @ (if c then [m] else [])"
  "info (warning_if c m r) = info r"
  "profile (warning_if c m r) = profile r"
  by (simp_all add: warning_if_def)

lemma error_if_True [simp]: "error_if True m r = add_error m r"
  and error_if_False [simp]: "error_if False m r = r"
  by (simp_all add: error_if_def)

lemma warning_if_True [simp]: "warning_if True m r = add_warning m r"
  and warning_if_False [simp]: "warning_if False m r = r"
  by (simp_all add: warning_if_def)

section \<open>Order on numbers\<close>

lemma num_lt_irrefl [simp]: "\<not> num_lt a a"
  by (cases a) auto

lemma num_lt_PosInf [simp]: "\<not> num_lt PosInf a"
  by (cases a) auto

lemma num_le_not_lt: "num_le a b \<Longrightarrow> \<not> num_lt b a"
  by (cases a; cases b) (auto simp: num_le_def)

lemma num_lt_not_le: "num_lt a b \<Longrightarrow> \<not> num_le b a"
  by (cases a; cases b) (auto simp: num_le_def)

lemma py_gt_PosInf: "py_gt t (JNum PosInf) = Inr c \<Longrightarrow> \<not> c"
  by (cases "as_num t") (auto simp: py_gt_def py_lt_def)

section \<open>Loops\<close>

lemma forE_append: "forE (xs @ ys) body s = bindE (forE xs body s) (forE ys body)"
proof (induction xs arbitrary: s)
  case Nil
  show ?case by simp
next
  case (Cons x xs)
  show ?case by (cases "body x s") (simp_all add: Cons.IH)
qed

lemma forE_nth:
  assumes "forE xs body s = Inr s'" and "i < length xs"
  shows "\<exists>s1 s2. forE (take i xs) body s = Inr s1 \<and> body (xs ! i) s1 = Inr s2
           \<and> forE (drop (Suc i) xs) body s2 = Inr s'"
proof -
  have "xs = take i xs @ (xs ! i) # drop (Suc i) xs"
    using assms(2) by (simp add: id_take_nth_drop)
  then have "forE (take i xs @ (xs ! i) # drop (Suc i) xs) body s = Inr s'"
    using assms(1) by simp
  then show ?thesis
    by (auto simp: forE_append bindE_eq_Inr)
qed

lemma forE_rel:
  assumes step: "\<And>x s s'. x \<in> set xs \<Longrightarrow> body x s = Inr s' \<Longrightarrow> R s s'"
    and refl: "\<And>s. R s s"
    and trans: "\<And>a b c. R a b \<Longrightarrow> R b c \<Longrightarrow> R a c"
    and run: "forE xs body s = Inr s'"
  shows "R s s'"
  using step run
proof (induction xs arbitrary: s)
  case Nil
  then show ?case by (simp add: refl)
next
  case (Cons x xs)
  from Cons.prems(2) obtain s1 where b: "body x s = Inr s1" and rest: "forE xs body s1 = Inr s'"
    by (auto simp: bindE_eq_Inr)
  have "R s s1"
    by (rule Cons.prems(1)[of x]) (simp_all add: b)
  moreover have "R s1 s'"
  proof (rule Cons.IH[OF _ rest])
    fix y t t' assume "y \<in> set xs" and "body y t = Inr t'"
    then show "R t t'" by (intro Cons.prems(1)[of y]) simp_all
  qed
  ultimately show ?case by (rule trans)
qed

section \<open>Append-only passes\<close>

lemma appends_refl: "appends P r r"
  unfolding appends_def by (rule exI[of _ "[]"]) simp

lemma appends_trans: "appends P a b \<Longrightarrow> appends P b c \<Longrightarrow> appends P a c"
  by (auto simp: appends_def)

lemma appends_error_if: "appends P r r1 \<Longrightarrow> (c \<Longrightarrow> P m) \<Longrightarrow> appends P r (error_if c m r1)"
  by (auto simp: appends_def error_if_def add_error_def)

lemma appends_add_error: "appends P r r1 \<Longrightarrow> P m \<Longrightarrow> appends P r (add_error m r1)"
  by (auto simp: appends_def add_error_def)

lemma appends_mono: "appends P r r' \<Longrightarrow> (\<And>m. P m \<Longrightarrow> Q m) \<Longrightarrow> appends Q r r'"
  by (auto simp: appends_def list_all_iff)

lemma appends_errors: "appends P r r' \<Longrightarrow> \<exists>ys. errors r' = errors r @ ys \<and> list_all P ys"
  by (auto simp: appends_def)

lemma appends_others:
  "appends P r r' \<Longrightarrow> warnings r' = warnings r \<and> info r' = info r \<and> profile r' = profile r"
  by (auto simp: appends_def)

lemma forE_appends:
  assumes "\<And>x s s'. x \<in> set xs \<Longrightarrow> body x s = Inr s' \<Longrightarrow> appends P s s'"
    and "forE xs body s = Inr s'"
  shows "appends P s s'"
  using assms(1) appends_refl appends_trans assms(2) by (rule forE_rel)

lemma forE_block:
  assumes run: "forE xs body s = Inr s'" and i: "i < length xs"
    and step: "\<And>x t t'. x \<in> set xs \<Longrightarrow> body x t = Inr t' \<Longrightarrow> appends P t t'"
  shows "\<exists>s1 s2. body (xs ! i) s1 = Inr s2 \<and> appends P s s1 \<and> appends P s2 s'"
proof -
  from forE_nth[OF run i] obtain s1 s2 where
    a: "forE (take i xs) body s = Inr s1" and b: "body (xs ! i) s1 = Inr s2"
    and c: "forE (drop (Suc i) xs) body s2 = Inr s'" by blast
  have "appends P s s1"
    by (rule forE_appends[OF _ a]) (auto dest: in_set_takeD intro: step)
  moreover have "appends P s2 s'"
    by (rule forE_appends[OF _ c]) (auto dest: in_set_dropD intro: step)
  ultimately show ?thesis using b by blast
qed

section \<open>Temporal pass: what the loop bodies append\<close>

lemma token_error_shapes:
  "token_error [Lit ''Token '', Val i, Lit '': missing t0 or t1'']"
  "token_error [Lit ''Token '', Val i, Lit '': t0 ('', Val x, Lit '') < segment t0 ('', Val y, Lit '')'']"
  "token_error [Lit ''Token '', Val i, Lit '': t1 ('', Val x, Lit '') > segment t1 ('', Val y, Lit '')'']"
  "token_error [Lit ''Token '', Val i, Lit '': t1 ('', Val x, Lit '') must be > t0 ('', Val y, Lit '')'']"
  by (simp_all add: token_error_def)

lemma token_error_not_duration: "token_error m \<Longrightarrow> \<not> is_duration_error m"
  by (auto simp: token_error_def is_duration_error_def)

lemma temporal_token_appends:
  assumes "temporal_token t0 t1 tok r = Inr r'"
  shows "appends token_error r r'"
  using assms unfolding temporal_token_def Let_def
  by (auto simp: bindE_eq_Inr split: if_splits
        intro!: appends_error_if appends_add_error appends_refl token_error_shapes)

lemma temporal_token_numbers:
  assumes "map_of kvs ''t0'' = Some (JNum a)" and "map_of kvs ''t1'' = Some (JNum b)"
  shows "temporal_token (JNum A) (JNum B) (JDict kvs) r =
     Inr (r\<lparr>errors := errors r @ nesting_errors (id_or_unknown kvs) a b A B\<rparr>)"
  using assms
  by (simp add: temporal_token_def add_error_def error_if_def Let_def nesting_errors_def id_or_unknown_def)

lemma temporal_segment_numbers:
  assumes "map_of s ''t0'' = Some (JNum A)" and "map_of s ''t1'' = Some (JNum B)"
  shows "temporal_segment duration (JDict s) r =
     bindE (py_gt (JNum B) duration) (\<lambda>c3.
     bindE (py_iter (case map_of s ''tokens'' of None \<Rightarrow> JList [] | Some v \<Rightarrow> v)) (\<lambda>tl.
     forE tl (temporal_token (JNum A) (JNum B))
       (error_if c3 [Lit ''Segment '', Val (id_or_unknown s), Lit '': t1 ('', Val (JNum B),
                     Lit '') > duration ('', Val duration, Lit '')'']
       (error_if (num_le B A) [Lit ''Segment '', Val (id_or_unknown s), Lit '': t1 ('', Val (JNum B),
                     Lit '') must be > t0 ('', Val (JNum A), Lit '')'']
       (error_if (num_lt A (Fin 0)) [Lit ''Segment '', Val (id_or_unknown s), Lit '': t0 ('',
                     Val (JNum A), Lit '') < 0''] r)))))"
  using assms by (simp add: temporal_segment_def Let_def id_or_unknown_def)
lemma forE_appends_from:
  assumes "forE xs body s0 = Inr s'" and "appends P s s0"
    and "\<And>x t t'. body x t = Inr t' \<Longrightarrow> appends P t t'"
  shows "appends P s s'"
  by (rule appends_trans[OF assms(2)]) (rule forE_appends[OF _ assms(1)], erule assms(3))

lemma temporal_token_appends_any:
  "temporal_token t0 t1 x s = Inr s' \<Longrightarrow> appends (\<lambda>m. True) s s'"
  by (rule appends_mono[OF temporal_token_appends]) simp_all

lemma temporal_segment_appends:
  assumes "temporal_segment duration seg r = Inr r'"
  shows "appends (\<lambda>m. True) r r'"
  using assms unfolding temporal_segment_def Let_def
  apply (auto simp: bindE_eq_Inr split: if_splits intro!: appends_add_error appends_refl)
  apply (erule forE_appends_from)
   apply (intro appends_error_if appends_refl; simp)
  apply (erule temporal_token_appends_any)
  done

lemma not_duration_shapes:
  "\<not> is_duration_error [Lit ''Segment '', Val i, Lit '': missing t0'']"
  "\<not> is_duration_error [Lit ''Segment '', Val i, Lit '': missing t1'']"
  "\<not> is_duration_error [Lit ''Segment '', Val i, Lit '': t0 ('', Val x, Lit '') < 0'']"
  "\<not> is_duration_error [Lit ''Segment '', Val i, Lit '': t1 ('', Val x, Lit '') must be > t0 ('', Val y, Lit '')'']"
  by (simp_all add: is_duration_error_def)

lemma temporal_segment_no_duration:
  assumes "temporal_segment (JNum PosInf) seg r = Inr r'"
  shows "appends (\<lambda>m. \<not> is_duration_error m) r r'"
  using assms unfolding temporal_segment_def Let_def
  apply (auto simp: bindE_eq_Inr not_duration_shapes split: if_splits dest!: py_gt_PosInf
         intro!: appends_add_error appends_refl)
  apply (erule forE_appends_from)
   apply (intro appends_error_if appends_refl; simp add: not_duration_shapes)
  apply (rule appends_mono[OF temporal_token_appends], assumption)
  apply (erule token_error_not_duration)
  done

section \<open>Temporal pass: nesting of tokens in their segment\<close>

lemma appends_chain:
  assumes "appends P r r1" and "errors r2 = errors r1 @ ys" and "appends Q r2 r'"
  shows "\<exists>pre post. errors r' = errors r @ pre @ ys @ post"
proof -
  from assms(1) obtain xs where "errors r1 = errors r @ xs" by (auto simp: appends_def)
  moreover from assms(3) obtain zs where "errors r' = errors r2 @ zs" by (auto simp: appends_def)
  ultimately have "errors r' = errors r @ xs @ ys @ zs" using assms(2) by simp
  then show ?thesis by blast
qed

lemma temporal_loop:
  assumes "validate_temporal_constraints (JDict d) r = Inr r'"
    and "map_of d ''segments'' = Some (JList segs)"
  shows "\<exists>duration. py_get (case map_of d ''audio'' of None \<Rightarrow> JDict [] | Some v \<Rightarrow> v)
                          ''duration_s'' (JNum PosInf) = Inr duration
           \<and> forE segs (temporal_segment duration) r = Inr r'"
  using assms by (auto simp: validate_temporal_constraints_def bindE_eq_Inr)

lemma nesting_errors_distinct: "distinct (nesting_errors i a b A B)"
  by (simp add: nesting_errors_def)

lemma nesting_errors_empty:
  "num_le A a \<Longrightarrow> num_lt a b \<Longrightarrow> num_le b B \<Longrightarrow> nesting_errors i a b A B = []"
  by (simp add: nesting_errors_def num_le_not_lt num_lt_not_le)

lemma nesting_errors_length:
  "length (nesting_errors i a b A B) =
     (if num_lt a A then 1 else 0) + (if num_lt B b then 1 else 0) + (if num_le b a then 1 else 0)"
  by (simp add: nesting_errors_def)

text \<open>
  C3. Take a segment with numeric \<open>t0 = A\<close> and \<open>t1 = B\<close> and a token of it with numeric
  \<open>t0 = a\<close> and \<open>t1 = b\<close>. The loop body of the temporal pass appends for this token
  exactly \<open>nesting_errors\<close>: one message for \<open>a < A\<close>, one for \<open>b > B\<close>, one for
  \<open>b \<le> a\<close>, each only when its clause of \<open>A \<le> a < b \<le> B\<close> is violated; the messages
  are pairwise distinct, their number is the number of violated clauses, and there is
  none when the three clauses hold. In a run of the whole pass that returns, these
  messages stand together in the final error list.
\<close>

theorem token_nesting_errors:
  assumes run: "validate_temporal_constraints (JDict d) r = Inr r'"
    and segs: "map_of d ''segments'' = Some (JList segs)"
    and i: "i < length segs" and si: "segs ! i = JDict s"
    and A: "map_of s ''t0'' = Some (JNum A)" and B: "map_of s ''t1'' = Some (JNum B)"
    and toks: "map_of s ''tokens'' = Some (JList toks)"
    and j: "j < length toks" and tj: "toks ! j = JDict kvs"
    and a: "map_of kvs ''t0'' = Some (JNum a)" and b: "map_of kvs ''t1'' = Some (JNum b)"
  shows "temporal_token (JNum A) (JNum B) (JDict kvs) r0 =
           Inr (r0\<lparr>errors := errors r0 @ nesting_errors (id_or_unknown kvs) a b A B\<rparr>)
     \<and> (\<exists>pre post. errors r' = errors r @ pre @ nesting_errors (id_or_unknown kvs) a b A B @ post)
     \<and> distinct (nesting_errors (id_or_unknown kvs) a b A B)
     \<and> length (nesting_errors (id_or_unknown kvs) a b A B) =
         (if num_lt a A then 1 else 0) + (if num_lt B b then 1 else 0) + (if num_le b a then 1 else 0)
     \<and> (num_le A a \<and> num_lt a b \<and> num_le b B \<longrightarrow> nesting_errors (id_or_unknown kvs) a b A B = [])"
proof -
  let ?ne = "nesting_errors (id_or_unknown kvs) a b A B"
  from temporal_loop[OF run segs] obtain duration where
    loop: "forE segs (temporal_segment duration) r = Inr r'" by blast
  from forE_block[OF loop i, of "\<lambda>m. True"] si obtain r1 r2 where
    seg: "temporal_segment duration (JDict s) r1 = Inr r2"
    and r_r1: "appends (\<lambda>m. True) r r1" and r2_r': "appends (\<lambda>m. True) r2 r'"
    by (auto intro: temporal_segment_appends)
  from seg toks obtain r3 where
    tloop: "forE toks (temporal_token (JNum A) (JNum B)) r3 = Inr r2"
    and r1_r3: "appends (\<lambda>m. True) r1 r3"
    unfolding temporal_segment_numbers[OF A B]
    by (auto simp: bindE_eq_Inr intro!: appends_error_if appends_refl)
  from forE_block[OF tloop j, of "\<lambda>m. True"] tj obtain t1 t2 where
    tok: "temporal_token (JNum A) (JNum B) (JDict kvs) t1 = Inr t2"
    and r3_t1: "appends (\<lambda>m. True) r3 t1" and t2_r2: "appends (\<lambda>m. True) t2 r2"
    by (auto intro: temporal_token_appends_any)
  from tok have e: "errors t2 = errors t1 @ ?ne"
    by (auto simp: temporal_token_numbers[OF a b])
  have before: "appends (\<lambda>m. True) r t1"
    using r_r1 r1_r3 r3_t1 by (blast intro: appends_trans)
  have after: "appends (\<lambda>m. True) t2 r'"
    using t2_r2 r2_r' by (blast intro: appends_trans)
  have "\<exists>pre post. errors r' = errors r @ pre @ ?ne @ post"
    by (rule appends_chain[OF before e after])
  then show ?thesis
    using temporal_token_numbers[OF a b, of A B r0] nesting_errors_distinct nesting_errors_length
      nesting_errors_empty
    by simp
qed

theorem token_nesting_errors_witness:
  "validate_temporal_constraints (JDict ex_doc) new_result =
     Inr (new_result\<lparr>errors := [[Lit ''Token '', Val (JStr ''w1''), Lit '': t1 ('', Val (JNum (Fin 6)),
                                    Lit '') > segment t1 ('', Val (JNum (Fin 5)), Lit '')'']]\<rparr>)
   \<and> nesting_errors (JStr ''w1'') (Fin 0) (Fin 6) (Fin 0) (Fin 5) =
       [[Lit ''Token '', Val (JStr ''w1''), Lit '': t1 ('', Val (JNum (Fin 6)),
         Lit '') > segment t1 ('', Val (JNum (Fin 5)), Lit '')'']]
   \<and> temporal_token (JNum (Fin 0)) (JNum (Fin 5)) (JDict ex_token) new_result =
       Inr (new_result\<lparr>errors := nesting_errors (JStr ''w1'') (Fin 0) (Fin 6) (Fin 0) (Fin 5)\<rparr>)"
proof -
  let ?R = "new_result\<lparr>errors := [[Lit ''Token '', Val (JStr ''w1''), Lit '': t1 ('', Val (JNum (Fin 6)),
                                    Lit '') > segment t1 ('', Val (JNum (Fin 5)), Lit '')'']]\<rparr>"
  have run: "validate_temporal_constraints (JDict ex_doc) new_result = Inr ?R"
    by (simp add: validate_temporal_constraints_def temporal_segment_def temporal_token_def
          ex_doc_def ex_segment_def ex_token_def new_result_def add_error_def error_if_def
          num_le_def Let_def)
  have ne: "nesting_errors (JStr ''w1'') (Fin 0) (Fin 6) (Fin 0) (Fin 5) =
       [[Lit ''Token '', Val (JStr ''w1''), Lit '': t1 ('', Val (JNum (Fin 6)),
         Lit '') > segment t1 ('', Val (JNum (Fin 5)), Lit '')'']]"
    by (simp add: nesting_errors_def num_le_def)
  have "temporal_token (JNum (Fin 0)) (JNum (Fin 5)) (JDict ex_token) new_result =
       Inr (new_result\<lparr>errors := errors new_result
              @ nesting_errors (id_or_unknown ex_token) (Fin 0) (Fin 6) (Fin 0) (Fin 5)\<rparr>)"
    using token_nesting_errors[OF run, of "[JDict ex_segment]" 0 ex_segment "Fin 0" "Fin 5"
        "[JDict ex_token]" 0 ex_token "Fin 0" "Fin 6" new_result]
    by (simp add: ex_doc_def ex_segment_def ex_token_def)
  then show ?thesis using run ne
    by (simp add: id_or_unknown_def ex_token_def new_result_def)
qed

section \<open>Temporal pass: the duration bound\<close>

lemma duration_shape:
  "is_duration_error [Lit ''Segment '', Val i, Lit '': t1 ('', Val x, Lit '') > duration ('', Val y, Lit '')'']"
  by (simp add: is_duration_error_def)

lemma temporal_segment_duration:
  assumes seg: "temporal_segment (JNum D) (JDict s) r1 = Inr r2"
    and A: "map_of s ''t0'' = Some (JNum A)" and B: "map_of s ''t1'' = Some (JNum B)"
  shows "\<exists>ys. errors r2 = errors r1 @ ys
           \<and> filter is_duration_error ys =
               (if num_lt D B
                then [[Lit ''Segment '', Val (id_or_unknown s), Lit '': t1 ('', Val (JNum B),
                       Lit '') > duration ('', Val (JNum D), Lit '')'']]
                else [])"
proof -
  let ?m3 = "[Lit ''Segment '', Val (id_or_unknown s), Lit '': t1 ('', Val (JNum B),
              Lit '') > duration ('', Val (JNum D), Lit '')'']"
  let ?m2 = "[Lit ''Segment '', Val (id_or_unknown s), Lit '': t1 ('', Val (JNum B),
              Lit '') must be > t0 ('', Val (JNum A), Lit '')'']"
  let ?m1 = "[Lit ''Segment '', Val (id_or_unknown s), Lit '': t0 ('', Val (JNum A), Lit '') < 0'']"
  let ?r3 = "error_if (num_lt D B) ?m3 (error_if (num_le B A) ?m2 (error_if (num_lt A (Fin 0)) ?m1 r1))"
  from seg obtain tl where loop: "forE tl (temporal_token (JNum A) (JNum B)) ?r3 = Inr r2"
    unfolding temporal_segment_numbers[OF A B] by (auto simp: bindE_eq_Inr)
  have "appends token_error ?r3 r2"
    by (rule forE_appends[OF _ loop]) (erule temporal_token_appends)
  then obtain yt where yt: "errors r2 = errors ?r3 @ yt" and all: "list_all token_error yt"
    by (auto simp: appends_def)
  have none: "filter is_duration_error yt = []"
    using all by (auto simp: filter_empty_conv list_all_iff dest: token_error_not_duration)
  let ?ys = "(if num_lt A (Fin 0) then [?m1] else []) @ (if num_le B A then [?m2] else [])
             @ (if num_lt D B then [?m3] else []) @ yt"
  have "errors r2 = errors r1 @ ?ys" using yt by simp
  moreover have "filter is_duration_error ?ys = (if num_lt D B then [?m3] else [])"
    using none by (simp add: not_duration_shapes duration_shape)
  ultimately show ?thesis by blast
qed

lemma temporal_loop_no_duration:
  assumes "validate_temporal_constraints (JDict d) r = Inr r'"
    and "map_of d ''audio'' = None
         \<or> (\<exists>au. map_of d ''audio'' = Some (JDict au) \<and> map_of au ''duration_s'' = None)"
  shows "\<exists>sl. forE sl (temporal_segment (JNum PosInf)) r = Inr r'"
  using assms by (auto simp: validate_temporal_constraints_def bindE_eq_Inr)

text \<open>
  C5. Suppose the temporal pass returns on a document. If the document has no \<^verbatim>\<open>audio\<close>,
  or an \<^verbatim>\<open>audio\<close> dictionary without \<^verbatim>\<open>duration_s\<close>, none of the errors that the pass
  appends is a t1-exceeds-duration error, whatever the segments are. If
  \<^verbatim>\<open>audio.duration_s\<close> is the number \<open>D\<close>, a segment with numeric \<open>t0\<close> and \<open>t1 = B\<close>
  contributes a block of errors to the final list in which the t1-exceeds-duration
  errors are exactly one when \<open>B > D\<close> (none otherwise), and that one cites the
  segment's ID, \<open>B\<close> and \<open>D\<close>.
\<close>

theorem duration_bound:
  assumes run: "validate_temporal_constraints (JDict d) r = Inr r'"
  shows "(map_of d ''audio'' = None
          \<or> (\<exists>au. map_of d ''audio'' = Some (JDict au) \<and> map_of au ''duration_s'' = None)
          \<longrightarrow> (\<exists>ys. errors r' = errors r @ ys \<and> (\<forall>m \<in> set ys. \<not> is_duration_error m)))
       \<and> (map_of d ''audio'' = Some (JDict au) \<and> map_of au ''duration_s'' = Some (JNum D)
          \<and> map_of d ''segments'' = Some (JList segs) \<and> i < length segs \<and> segs ! i = JDict s
          \<and> map_of s ''t0'' = Some (JNum A) \<and> map_of s ''t1'' = Some (JNum B)
          \<longrightarrow> (\<exists>ys pre post. errors r' = errors r @ pre @ ys @ post
                 \<and> (\<exists>r1 r2. temporal_segment (JNum D) (JDict s) r1 = Inr r2
                              \<and> errors r2 = errors r1 @ ys)
                 \<and> filter is_duration_error ys =
                     (if num_lt D B
                      then [[Lit ''Segment '', Val (id_or_unknown s), Lit '': t1 ('', Val (JNum B),
                             Lit '') > duration ('', Val (JNum D), Lit '')'']]
                      else [])))"
proof (intro conjI impI)
  assume "map_of d ''audio'' = None
          \<or> (\<exists>au. map_of d ''audio'' = Some (JDict au) \<and> map_of au ''duration_s'' = None)"
  from temporal_loop_no_duration[OF run this] obtain sl where
    loop: "forE sl (temporal_segment (JNum PosInf)) r = Inr r'" by blast
  have "appends (\<lambda>m. \<not> is_duration_error m) r r'"
    by (rule forE_appends[OF _ loop]) (erule temporal_segment_no_duration)
  then show "\<exists>ys. errors r' = errors r @ ys \<and> (\<forall>m \<in> set ys. \<not> is_duration_error m)"
    by (auto simp: appends_def list_all_iff)
next
  assume h: "map_of d ''audio'' = Some (JDict au) \<and> map_of au ''duration_s'' = Some (JNum D)
          \<and> map_of d ''segments'' = Some (JList segs) \<and> i < length segs \<and> segs ! i = JDict s
          \<and> map_of s ''t0'' = Some (JNum A) \<and> map_of s ''t1'' = Some (JNum B)"
  from temporal_loop[OF run, of segs] h have
    loop: "forE segs (temporal_segment (JNum D)) r = Inr r'" by auto
  from h have i: "i < length segs" by simp
  from forE_block[OF loop i, of "\<lambda>m. True"] h obtain r1 r2 where
    seg: "temporal_segment (JNum D) (JDict s) r1 = Inr r2"
    and before: "appends (\<lambda>m. True) r r1" and after: "appends (\<lambda>m. True) r2 r'"
    by (auto intro: temporal_segment_appends)
  from temporal_segment_duration[OF seg] h obtain ys where
    ys: "errors r2 = errors r1 @ ys"
    and f: "filter is_duration_error ys =
               (if num_lt D B
                then [[Lit ''Segment '', Val (id_or_unknown s), Lit '': t1 ('', Val (JNum B),
                       Lit '') > duration ('', Val (JNum D), Lit '')'']]
                else [])" by blast
  from appends_chain[OF before ys after] obtain pre post where
    "errors r' = errors r @ pre @ ys @ post" by blast
  with seg ys f show "\<exists>ys pre post. errors r' = errors r @ pre @ ys @ post
                 \<and> (\<exists>r1 r2. temporal_segment (JNum D) (JDict s) r1 = Inr r2
                              \<and> errors r2 = errors r1 @ ys)
                 \<and> filter is_duration_error ys =
                     (if num_lt D B
                      then [[Lit ''Segment '', Val (id_or_unknown s), Lit '': t1 ('', Val (JNum B),
                             Lit '') > duration ('', Val (JNum D), Lit '')'']]
                      else [])" by blast
qed

theorem duration_bound_witness:
  "validate_temporal_constraints (JDict ex_no_duration_doc) new_result = Inr new_result
   \<and> (\<exists>ys. errors new_result = errors new_result @ ys \<and> (\<forall>m \<in> set ys. \<not> is_duration_error m))
   \<and> validate_temporal_constraints (JDict ex_long_doc) new_result =
       Inr (new_result\<lparr>errors := [[Lit ''Segment '', Val (JStr ''s1''), Lit '': t1 ('',
              Val (JNum (Fin 12)), Lit '') > duration ('', Val (JNum (Fin 10)), Lit '')'']]\<rparr>)
   \<and> (\<exists>ys pre post.
         [[Lit ''Segment '', Val (JStr ''s1''), Lit '': t1 ('', Val (JNum (Fin 12)),
           Lit '') > duration ('', Val (JNum (Fin 10)), Lit '')'']] = pre @ ys @ post
         \<and> filter is_duration_error ys =
             [[Lit ''Segment '', Val (JStr ''s1''), Lit '': t1 ('', Val (JNum (Fin 12)),
               Lit '') > duration ('', Val (JNum (Fin 10)), Lit '')'']])"
proof -
  let ?m = "[Lit ''Segment '', Val (JStr ''s1''), Lit '': t1 ('', Val (JNum (Fin 12)),
             Lit '') > duration ('', Val (JNum (Fin 10)), Lit '')'']"
  have run1: "validate_temporal_constraints (JDict ex_no_duration_doc) new_result = Inr new_result"
    by (simp add: validate_temporal_constraints_def temporal_segment_def
          ex_no_duration_doc_def ex_long_segment_def num_le_def py_gt_def Let_def)
  have run2: "validate_temporal_constraints (JDict ex_long_doc) new_result =
                Inr (new_result\<lparr>errors := [?m]\<rparr>)"
    by (simp add: validate_temporal_constraints_def temporal_segment_def
          ex_long_doc_def ex_long_segment_def new_result_def add_error_def error_if_def
          num_le_def Let_def)
  have a: "\<exists>ys. errors new_result = errors new_result @ ys \<and> (\<forall>m \<in> set ys. \<not> is_duration_error m)"
    using duration_bound[OF run1] by (simp add: ex_no_duration_doc_def)
  have b: "\<exists>ys pre post. [?m] = pre @ ys @ post \<and> filter is_duration_error ys = [?m]"
    using duration_bound[OF run2, of "[(''uri'', JStr ''a.wav''), (''duration_s'', JNum (Fin 10))]"
        "Fin 10" "[JDict ex_long_segment]" 0 ex_long_segment "Fin 0" "Fin 12"]
    by (simp add: ex_long_doc_def ex_long_segment_def id_or_unknown_def new_result_def) blast
  from run1 run2 a b show ?thesis by blast
qed

section \<open>ID-uniqueness pass: duplicates in two namespaces\<close>





lemma dup_shapes [simp]:
  "is_dup_token [Lit ''Duplicate token ID: '', Val v]"
  "\<not> is_dup_token [Lit ''Token missing required 'id' field'']"
  "\<not> is_dup_token [Lit ''Duplicate segment ID: '', Val v]"
  "\<not> is_dup_token [Lit ''Segment missing required 'id' field'']"
  "is_dup_segment [Lit ''Duplicate segment ID: '', Val v]"
  "\<not> is_dup_segment [Lit ''Segment missing required 'id' field'']"
  "\<not> is_dup_segment [Lit ''Duplicate token ID: '', Val v]"
  "\<not> is_dup_segment [Lit ''Token missing required 'id' field'']"
  by (simp_all add: is_dup_token_def is_dup_segment_def)


















section \<open>Required-fields pass: the version gate\<close>

lemma version_shapes:
  "is_version_error [Lit ''Missing required field: prosograph (version string)'']"
  "is_version_error [Lit ''Unsupported version: '', Val v, Lit '' (expected 1.x)'']"
  "\<not> is_version_error [Lit ''Missing required field: audio'']"
  "\<not> is_version_error [Lit ''Missing required field: audio.uri'']"
  "\<not> is_version_error [Lit ''Missing required field: audio.duration_s'']"
  "\<not> is_version_error [Lit ''audio.duration_s must be > 0'']"
  "\<not> is_version_error [Lit ''Missing required field: segments'']"
  by (simp_all add: is_version_error_def)

lemma required_fields_split:
  assumes "validate_required_fields (JDict d) r = Inr r'"
  shows "\<exists>r1. (case map_of d ''prosograph'' of
                 None \<Rightarrow> Inr (add_error [Lit ''Missing required field: prosograph (version string)''] r)
               | Some v \<Rightarrow> bindE (py_startswith v ''1.'') (\<lambda>ok.
                   Inr (error_if (\<not> ok)
                          [Lit ''Unsupported version: '', Val v, Lit '' (expected 1.x)''] r))) = Inr r1
            \<and> appends (\<lambda>m. \<not> is_version_error m) r1 r'"
  using assms unfolding validate_required_fields_def Let_def
  by (auto simp: bindE_eq_Inr version_shapes split: if_splits option.splits
        intro!: appends_error_if appends_add_error appends_refl)

lemma py_startswith_Inr: "py_startswith v p = Inr ok \<Longrightarrow> \<exists>s. v = JStr s \<and> ok = (take (length p) s = p)"
  by (cases v) auto

text \<open>
  C1, as the code has it. Suppose the required-fields pass returns on a document. Among
  the errors it appends, the version errors are: the missing-field error when the key
  \<^verbatim>\<open>prosograph\<close> is absent; nothing when its value is a string that starts with the two
  characters \<^verbatim>\<open>1.\<close>; otherwise one unsupported-version error that quotes the value. The
  pass returns only when the value, if present, is a string: on any other value it
  raises \<^verbatim>\<open>AttributeError\<close>.
\<close>

theorem version_gate:
  "(validate_required_fields (JDict d) r = Inr r' \<longrightarrow>
      (\<exists>ys. errors r' = errors r @ ys
         \<and> (map_of d ''prosograph'' = None \<longrightarrow>
              filter is_version_error ys =
                [[Lit ''Missing required field: prosograph (version string)'']])
         \<and> (\<forall>v. map_of d ''prosograph'' = Some v \<longrightarrow>
              (\<exists>s. v = JStr s
                 \<and> filter is_version_error ys =
                     (if take 2 s = ''1.'' then []
                      else [[Lit ''Unsupported version: '', Val v, Lit '' (expected 1.x)'']])))))
   \<and> (map_of d ''prosograph'' = Some v \<and> (\<forall>s. v \<noteq> JStr s) \<longrightarrow>
        validate_required_fields (JDict d) r = Inl AttributeError)"
proof (intro conjI impI)
  assume run: "validate_required_fields (JDict d) r = Inr r'"
  from required_fields_split[OF run] obtain r1 where
    r1: "(case map_of d ''prosograph'' of
                 None \<Rightarrow> Inr (add_error [Lit ''Missing required field: prosograph (version string)''] r)
               | Some v \<Rightarrow> bindE (py_startswith v ''1.'') (\<lambda>ok.
                   Inr (error_if (\<not> ok)
                          [Lit ''Unsupported version: '', Val v, Lit '' (expected 1.x)''] r))) = Inr r1"
    and rest: "appends (\<lambda>m. \<not> is_version_error m) r1 r'" by blast
  from rest obtain zs where zs: "errors r' = errors r1 @ zs" and nz: "filter is_version_error zs = []"
    by (auto simp: appends_def filter_empty_conv list_all_iff)
  show "\<exists>ys. errors r' = errors r @ ys
         \<and> (map_of d ''prosograph'' = None \<longrightarrow>
              filter is_version_error ys =
                [[Lit ''Missing required field: prosograph (version string)'']])
         \<and> (\<forall>v. map_of d ''prosograph'' = Some v \<longrightarrow>
              (\<exists>s. v = JStr s
                 \<and> filter is_version_error ys =
                     (if take 2 s = ''1.'' then []
                      else [[Lit ''Unsupported version: '', Val v, Lit '' (expected 1.x)'']])))"
  proof (cases "map_of d ''prosograph''")
    case None
    let ?ys = "[[Lit ''Missing required field: prosograph (version string)'']] @ zs"
    from None r1 have "errors r1 = errors r @ [[Lit ''Missing required field: prosograph (version string)'']]"
      by auto
    with zs have e: "errors r' = errors r @ ?ys"
      by simp
    have f: "filter is_version_error ?ys = [[Lit ''Missing required field: prosograph (version string)'']]"
      using nz by (simp add: version_shapes)
    show ?thesis
      by (rule exI[of _ ?ys]) (simp only: e f None, simp)
  next
    case (Some v)
    with r1 obtain ok where ok: "py_startswith v ''1.'' = Inr ok"
      and r1': "r1 = error_if (\<not> ok) [Lit ''Unsupported version: '', Val v, Lit '' (expected 1.x)''] r"
      by (auto simp: bindE_eq_Inr)
    from py_startswith_Inr[OF ok] obtain s where s: "v = JStr s" and oks: "ok = (take 2 s = ''1.'')"
      by (auto simp: numeral_2_eq_2)
    let ?e = "if take 2 s = ''1.'' then []
              else [[Lit ''Unsupported version: '', Val v, Lit '' (expected 1.x)'']]"
    have e: "errors r' = errors r @ (?e @ zs)" using zs r1' oks by simp
    have f: "filter is_version_error (?e @ zs) = ?e"
      using nz by (simp add: version_shapes)
    show ?thesis
      by (rule exI[of _ "?e @ zs"]) (simp only: e f Some, simp add: s)
  qed
next
  assume "map_of d ''prosograph'' = Some v \<and> (\<forall>s. v \<noteq> JStr s)"
  then show "validate_required_fields (JDict d) r = Inl AttributeError"
    by (cases v) (simp_all add: validate_required_fields_def)
qed

lemma run_version_1:
  "validate_required_fields (JDict (ex_versioned_doc (JStr ''1''))) new_result =
     Inr (new_result\<lparr>errors := [[Lit ''Unsupported version: '', Val (JStr ''1''), Lit '' (expected 1.x)'']]\<rparr>)"
  by (simp add: validate_required_fields_def ex_versioned_doc_def new_result_def add_error_def
        error_if_def num_le_def)

theorem version_gate_witness:
  "validate_required_fields (JDict (ex_versioned_doc (JStr ''1''))) new_result =
     Inr (new_result\<lparr>errors := [[Lit ''Unsupported version: '', Val (JStr ''1''), Lit '' (expected 1.x)'']]\<rparr>)
   \<and> filter is_version_error
         [[Lit ''Unsupported version: '', Val (JStr ''1''), Lit '' (expected 1.x)'']] =
       [[Lit ''Unsupported version: '', Val (JStr ''1''), Lit '' (expected 1.x)'']]
   \<and> validate_required_fields (JDict (ex_versioned_doc (JNum (Fin 1)))) new_result = Inl AttributeError"
proof -
  have a: "map_of (ex_versioned_doc (JStr ''1'')) ''prosograph'' = Some (JStr ''1'')"
    and b: "map_of (ex_versioned_doc (JNum (Fin 1))) ''prosograph'' = Some (JNum (Fin 1))"
    by (simp_all add: ex_versioned_doc_def)
  from version_gate[of "ex_versioned_doc (JStr ''1'')" new_result _ "JStr ''1''"] run_version_1 a
  have "filter is_version_error
         [[Lit ''Unsupported version: '', Val (JStr ''1''), Lit '' (expected 1.x)'']] =
       [[Lit ''Unsupported version: '', Val (JStr ''1''), Lit '' (expected 1.x)'']]"
    by (simp add: version_shapes)
  moreover from version_gate[of "ex_versioned_doc (JNum (Fin 1))" new_result _ "JNum (Fin 1)"] b
  have "validate_required_fields (JDict (ex_versioned_doc (JNum (Fin 1)))) new_result = Inl AttributeError"
    by simp
  ultimately show ?thesis using run_version_1 by simp
qed

text \<open>
  C1 as stated fails for the version \<^verbatim>\<open>"1"\<close>: its major segment is \<^verbatim>\<open>1\<close>, and the pass
  reports it as unsupported, because the code asks for the prefix \<^verbatim>\<open>1.\<close>.
\<close>

theorem version_major_1_counterexample:
  "major_segment ''1'' = ''1''
   \<and> validate_required_fields (JDict (ex_versioned_doc (JStr ''1''))) new_result =
       Inr (new_result\<lparr>errors := [[Lit ''Unsupported version: '', Val (JStr ''1''), Lit '' (expected 1.x)'']]\<rparr>)"
  by (simp add: major_segment_def validate_required_fields_def ex_versioned_doc_def new_result_def
        add_error_def error_if_def num_le_def)

section \<open>Tonal-language pass: warnings only\<close>




lemma py_get_get_or: "py_get x k d = Inr v \<Longrightarrow> v = get_or k d x"
  by (simp add: get_or_def)













section \<open>Profile detection: the three labels\<close>

lemma profile_segment_char:
  assumes "profile_segment default_lang seg (he, ht) = Inr st"
  shows "st = (he \<or> seg_expressive seg, ht \<or> seg_tonal default_lang seg)"
proof -
  from assms obtain tracks expressive lang lp where
    tr: "py_get seg ''tracks'' (JDict []) = Inr tracks"
    and ex: "any_in [''emotion'', ''prosody'', ''delivery'', ''voice_quality''] tracks = Inr expressive"
    and lang: "py_get seg ''language'' default_lang = Inr lang"
    and lp: "lang_prefix lang = Inr lp"
    and rest: "(if lp \<in> tonal_langs
     then bindE (py_contains ''tone'' tracks) (\<lambda>has_tone.
          if has_tone
          then bindE (py_get tracks ''tone'' (JDict [])) (\<lambda>tone.
               bindE (py_contains ''system'' tone) (\<lambda>has_system.
               Inr (if expressive then True else he, if has_system then True else ht)))
          else Inr (if expressive then True else he, ht))
     else Inr (if expressive then True else he, ht)) = Inr st"
    unfolding profile_segment_def Let_def by (auto simp: bindE_eq_Inr)
  have t: "tracks = get_or ''tracks'' (JDict []) seg" using tr by (rule py_get_get_or)
  have e: "seg_expressive seg = expressive" using ex t by (simp add: seg_expressive_def)
  have l: "lang = effective_language default_lang seg"
    using lang unfolding effective_language_def by (rule py_get_get_or)
  have tl: "tonal_language (effective_language default_lang seg) = (lp \<in> tonal_langs)"
    using lp l by (simp add: tonal_language_def)
  show ?thesis
  proof (cases "lp \<in> tonal_langs")
    case False
    with rest e tl show ?thesis by (auto simp: seg_tonal_def)
  next
    case True
    with rest obtain has_tone where ht: "py_contains ''tone'' tracks = Inr has_tone"
      and rest2: "(if has_tone
          then bindE (py_get tracks ''tone'' (JDict [])) (\<lambda>tone.
               bindE (py_contains ''system'' tone) (\<lambda>has_system.
               Inr (if expressive then True else he, if has_system then True else ht)))
          else Inr (if expressive then True else he, ht)) = Inr st"
      by (auto simp: bindE_eq_Inr)
    show ?thesis
    proof (cases has_tone)
      case True
      with rest2 obtain tone has_system where
        tn: "py_get tracks ''tone'' (JDict []) = Inr tone"
        and hs: "py_contains ''system'' tone = Inr has_system"
        and st: "st = (if expressive then True else he, if has_system then True else ht)"
        by (auto simp: bindE_eq_Inr)
      have "has_tone_field ''system'' seg = has_system"
        using tn hs t by (auto simp: has_tone_field_def dest!: py_get_get_or)
      then show ?thesis using st e tl \<open>lp \<in> tonal_langs\<close> by (auto simp: seg_tonal_def)
    next
      case False
      have "\<not> has_tone_field ''system'' seg"
      proof (cases tracks)
        case (JDict kvs)
        with ht False have "map_of kvs ''tone'' = None" by simp
        then show ?thesis using JDict t by (simp add: has_tone_field_def get_or_def)
      qed (use t in \<open>simp_all add: has_tone_field_def get_or_def\<close>)
      with rest2 False e show ?thesis by (auto simp: seg_tonal_def)
    qed
  qed
qed

lemma profile_loop:
  assumes "forE segs (profile_segment default_lang) (he, ht) = Inr st"
  shows "st = (he \<or> (\<exists>s \<in> set segs. seg_expressive s), ht \<or> (\<exists>s \<in> set segs. seg_tonal default_lang s))"
  using assms
proof (induction segs arbitrary: he ht)
  case Nil
  then show ?case by simp
next
  case (Cons x xs)
  from Cons.prems obtain st1 where b: "profile_segment default_lang x (he, ht) = Inr st1"
    and rest: "forE xs (profile_segment default_lang) st1 = Inr st"
    by (auto simp: bindE_eq_Inr)
  show ?case
    using Cons.IH[OF rest[unfolded profile_segment_char[OF b]]] by auto
qed

lemma detect_profile_char:
  assumes run: "detect_profile (JDict d) r = Inr r'"
    and segs: "map_of d ''segments'' = Some (JList segs)"
  shows "profile r' =
           Some (if (\<exists>s \<in> set segs. seg_tonal (default_language d) s) \<and> (\<exists>s \<in> set segs. seg_expressive s)
                 then ''PG-Tonal (includes PG-Expressive, PG-Core)''
                 else if (\<exists>s \<in> set segs. seg_expressive s)
                 then ''PG-Expressive (includes PG-Core)''
                 else ''PG-Core'')
         \<and> errors r' = errors r \<and> warnings r' = warnings r"
proof -
  from run segs obtain defaults default_lang flags meta declared where
    df: "py_get (JDict d) ''defaults'' (JDict []) = Inr defaults"
    and dl: "py_get defaults ''language'' (JStr []) = Inr default_lang"
    and loop: "forE segs (profile_segment default_lang) (False, False) = Inr flags"
    and r': "r' = (let r1 = (if fst flags \<and> snd flags
               then r\<lparr>profile := Some ''PG-Tonal (includes PG-Expressive, PG-Core)''\<rparr>
               else if fst flags
               then r\<lparr>profile := Some ''PG-Expressive (includes PG-Core)''\<rparr>
               else r\<lparr>profile := Some ''PG-Core''\<rparr>)
             in if py_truthy declared
                then add_info [Lit ''Declared profile: '', Val declared] r1
                else r1)"
    unfolding detect_profile_def by (auto simp: bindE_eq_Inr Let_def)
  have "default_lang = default_language d"
    using df dl unfolding default_language_def by (auto simp: get_or_def)
  with profile_loop[OF loop] have
    f: "flags = ((\<exists>s \<in> set segs. seg_expressive s), (\<exists>s \<in> set segs. seg_tonal (default_language d) s))"
    by simp
  show ?thesis unfolding r' f Let_def by simp
qed

text \<open>
  C2, with the labels that the code writes. Suppose the profile detector returns on a
  document whose \<^verbatim>\<open>segments\<close> is a list. If some segment is tonal with \<^verbatim>\<open>tracks.tone.system\<close>
  present and some segment is expressive, the profile is
  \<^verbatim>\<open>PG-Tonal (includes PG-Expressive, PG-Core)\<close>; if no segment is such a tonal one and some
  segment is expressive, it is \<^verbatim>\<open>PG-Expressive (includes PG-Core)\<close>; if no segment is
  expressive, it is \<^verbatim>\<open>PG-Core\<close>. The profile is the same on every other document with
  the same \<^verbatim>\<open>segments\<close> and \<^verbatim>\<open>defaults\<close> on which the detector returns, whatever its
  \<^verbatim>\<open>meta\<close> is.
\<close>

theorem profile_detection:
  assumes run: "detect_profile (JDict d) r = Inr r'"
    and segs: "map_of d ''segments'' = Some (JList segs)"
  shows "((\<exists>s \<in> set segs. seg_tonal (default_language d) s) \<and> (\<exists>s \<in> set segs. seg_expressive s)
            \<longrightarrow> profile r' = Some ''PG-Tonal (includes PG-Expressive, PG-Core)'')
     \<and> (\<not> (\<exists>s \<in> set segs. seg_tonal (default_language d) s) \<and> (\<exists>s \<in> set segs. seg_expressive s)
            \<longrightarrow> profile r' = Some ''PG-Expressive (includes PG-Core)'')
     \<and> (\<not> (\<exists>s \<in> set segs. seg_expressive s) \<longrightarrow> profile r' = Some ''PG-Core'')
     \<and> (\<forall>d2 r2 r2'. detect_profile (JDict d2) r2 = Inr r2'
            \<and> map_of d2 ''segments'' = map_of d ''segments''
            \<and> map_of d2 ''defaults'' = map_of d ''defaults''
          \<longrightarrow> profile r2' = profile r')"
proof -
  have same: "profile r2' = profile r'"
    if a: "detect_profile (JDict d2) r2 = Inr r2'"
      and b: "map_of d2 ''segments'' = map_of d ''segments''"
      and c: "map_of d2 ''defaults'' = map_of d ''defaults''" for d2 r2 r2'
  proof -
    have "default_language d2 = default_language d"
      using c by (simp add: default_language_def get_or_def)
    moreover have "map_of d2 ''segments'' = Some (JList segs)" using b segs by simp
    ultimately show ?thesis
      using detect_profile_char[OF a] detect_profile_char[OF run segs] by simp
  qed
  note c = detect_profile_char[OF run segs]
  have 1: "(\<exists>s \<in> set segs. seg_tonal (default_language d) s) \<and> (\<exists>s \<in> set segs. seg_expressive s)
            \<longrightarrow> profile r' = Some ''PG-Tonal (includes PG-Expressive, PG-Core)''"
    using c by simp
  have 2: "\<not> (\<exists>s \<in> set segs. seg_tonal (default_language d) s) \<and> (\<exists>s \<in> set segs. seg_expressive s)
            \<longrightarrow> profile r' = Some ''PG-Expressive (includes PG-Core)''"
    using c by simp
  have 3: "\<not> (\<exists>s \<in> set segs. seg_expressive s) \<longrightarrow> profile r' = Some ''PG-Core''"
    using c by simp
  have 4: "\<forall>d2 r2 r2'. detect_profile (JDict d2) r2 = Inr r2'
            \<and> map_of d2 ''segments'' = map_of d ''segments''
            \<and> map_of d2 ''defaults'' = map_of d ''defaults''
          \<longrightarrow> profile r2' = profile r'"
    using same by blast
  from 1 2 3 4 show ?thesis by (intro conjI)
qed

lemma ex_segment_flags:
  "seg_tonal (JStr []) ex_thai_segment" "\<not> seg_expressive ex_thai_segment"
  "\<not> seg_tonal (JStr []) ex_emotion_segment" "seg_expressive ex_emotion_segment"
  by (simp_all add: seg_tonal_def seg_expressive_def tonal_language_def effective_language_def
        has_tone_field_def get_or_def lang_prefix_def ascii_lower_def tonal_langs_def
        ex_thai_segment_def ex_emotion_segment_def)

lemma run_profile_tonal:
  "detect_profile (JDict (ex_profile_doc [ex_thai_segment, ex_emotion_segment] JNull)) new_result =
     Inr (new_result\<lparr>profile := Some ''PG-Tonal (includes PG-Expressive, PG-Core)''\<rparr>)"
  by (simp add: detect_profile_def profile_segment_def ex_profile_doc_def ex_thai_segment_def
        ex_emotion_segment_def lang_prefix_def ascii_lower_def tonal_langs_def new_result_def)

lemma run_profile_declared:
  "detect_profile (JDict (ex_profile_doc [ex_thai_segment, ex_emotion_segment] (JStr ''PG-Core''))) new_result =
     Inr (new_result\<lparr>info := [[Lit ''Declared profile: '', Val (JStr ''PG-Core'')]],
                      profile := Some ''PG-Tonal (includes PG-Expressive, PG-Core)''\<rparr>)"
  by (simp add: detect_profile_def profile_segment_def ex_profile_doc_def ex_thai_segment_def
        ex_emotion_segment_def lang_prefix_def ascii_lower_def tonal_langs_def new_result_def
        add_info_def)

lemma run_profile_expressive:
  "detect_profile (JDict (ex_profile_doc [ex_emotion_segment] JNull)) new_result =
     Inr (new_result\<lparr>profile := Some ''PG-Expressive (includes PG-Core)''\<rparr>)"
  by (simp add: detect_profile_def profile_segment_def ex_profile_doc_def
        ex_emotion_segment_def lang_prefix_def ascii_lower_def tonal_langs_def new_result_def)

lemma run_profile_core:
  "detect_profile (JDict (ex_profile_doc [] JNull)) new_result =
     Inr (new_result\<lparr>profile := Some ''PG-Core''\<rparr>)"
  by (simp add: detect_profile_def ex_profile_doc_def new_result_def)

theorem profile_detection_witness:
  "detect_profile (JDict (ex_profile_doc [ex_thai_segment, ex_emotion_segment] JNull)) new_result =
     Inr (new_result\<lparr>profile := Some ''PG-Tonal (includes PG-Expressive, PG-Core)''\<rparr>)
   \<and> seg_tonal (JStr []) ex_thai_segment \<and> seg_expressive ex_emotion_segment
   \<and> detect_profile (JDict (ex_profile_doc [ex_emotion_segment] JNull)) new_result =
       Inr (new_result\<lparr>profile := Some ''PG-Expressive (includes PG-Core)''\<rparr>)
   \<and> detect_profile (JDict (ex_profile_doc [] JNull)) new_result =
       Inr (new_result\<lparr>profile := Some ''PG-Core''\<rparr>)
   \<and> profile (new_result\<lparr>info := [[Lit ''Declared profile: '', Val (JStr ''PG-Core'')]],
                          profile := Some ''PG-Tonal (includes PG-Expressive, PG-Core)''\<rparr>) =
       profile (new_result\<lparr>profile := Some ''PG-Tonal (includes PG-Expressive, PG-Core)''\<rparr>)"
proof -
  have dl: "default_language (ex_profile_doc segs p) = JStr []" for segs p
    by (simp add: default_language_def get_or_def ex_profile_doc_def)
  have sg: "map_of (ex_profile_doc segs p) ''segments'' = Some (JList segs)" for segs p
    by (simp add: ex_profile_doc_def)
  have df: "map_of (ex_profile_doc segs p) ''defaults'' = None" for segs p
    by (simp add: ex_profile_doc_def)
  note t = profile_detection[OF run_profile_tonal sg]
  have 1: "profile (new_result\<lparr>profile := Some ''PG-Tonal (includes PG-Expressive, PG-Core)''\<rparr>)
             = Some ''PG-Tonal (includes PG-Expressive, PG-Core)''"
    using t ex_segment_flags by (simp add: dl)
  have 2: "profile (new_result\<lparr>info := [[Lit ''Declared profile: '', Val (JStr ''PG-Core'')]],
                          profile := Some ''PG-Tonal (includes PG-Expressive, PG-Core)''\<rparr>) =
       profile (new_result\<lparr>profile := Some ''PG-Tonal (includes PG-Expressive, PG-Core)''\<rparr>)"
    by (rule t[THEN conjunct2, THEN conjunct2, THEN conjunct2, rule_format],
        intro conjI, rule run_profile_declared) (simp_all add: sg df)
  have 3: "profile (new_result\<lparr>profile := Some ''PG-Expressive (includes PG-Core)''\<rparr>)
             = Some ''PG-Expressive (includes PG-Core)''"
    using profile_detection[OF run_profile_expressive sg] ex_segment_flags by (simp add: dl)
  have 4: "profile (new_result\<lparr>profile := Some ''PG-Core''\<rparr>) = Some ''PG-Core''"
    using profile_detection[OF run_profile_core sg] by simp
  from 1 2 3 4 run_profile_tonal run_profile_expressive run_profile_core ex_segment_flags
  show ?thesis by simp
qed

text \<open>
  C2 as stated fails on the labels: for a document with a tonal segment that declares
  its tone system and an expressive segment the detected value is not \<^verbatim>\<open>PG-Tonal\<close> but
  the longer string, and without the tonal segment it is not \<^verbatim>\<open>PG-Expressive\<close>.
\<close>

theorem profile_label_counterexample:
  "detect_profile (JDict (ex_profile_doc [ex_thai_segment, ex_emotion_segment] JNull)) new_result
     \<noteq> Inr (new_result\<lparr>profile := Some ''PG-Tonal''\<rparr>)
   \<and> detect_profile (JDict (ex_profile_doc [ex_thai_segment, ex_emotion_segment] JNull)) new_result
       = Inr (new_result\<lparr>profile := Some ''PG-Tonal (includes PG-Expressive, PG-Core)''\<rparr>)
   \<and> detect_profile (JDict (ex_profile_doc [ex_emotion_segment] JNull)) new_result
       \<noteq> Inr (new_result\<lparr>profile := Some ''PG-Expressive''\<rparr>)
   \<and> detect_profile (JDict (ex_profile_doc [ex_emotion_segment] JNull)) new_result
       = Inr (new_result\<lparr>profile := Some ''PG-Expressive (includes PG-Core)''\<rparr>)"
  by (simp add: detect_profile_def profile_segment_def ex_profile_doc_def ex_thai_segment_def
        ex_emotion_segment_def lang_prefix_def ascii_lower_def tonal_langs_def new_result_def)

section \<open>Reference-resolution pass: dangling references\<close>

















end
